theory Spec2Isabelle
  imports Complex_Main "HOL-Library.Word"
begin

section \<open>Runtime values used by the webhook handler\<close>

text \<open>
  The handler (class \<open>WebhookHandler\<close>) is TypeScript on Node. A \<open>Buffer\<close> is a list of
  bytes. A JavaScript string produced by decoding bytes is kept as the list of its code
  points, so that text outside Latin-1 (and the replacement character U+FFFD) has a value;
  \<open>jstr\<close> embeds an 8-bit literal.
\<close>

type_synonym byte = "8 word"
type_synonym jstring = "nat list"

definition jstr :: "string \<Rightarrow> jstring" where
  "jstr s = map of_char s"

text \<open>\<open>value.toString()\<close> of a non-negative BigInt: its decimal digits.\<close>

fun decimal :: "nat \<Rightarrow> jstring" where
  "decimal n = (if n < 10 then [48 + n] else decimal (n div 10) @ [48 + n mod 10])"

declare decimal.simps [simp del]

text \<open>
  \<open>Buffer.from(hex, 'hex')\<close>: two characters give one byte; decoding stops at the first
  pair that is not two hexadecimal digits, and a trailing single character is dropped.
  It never throws on a string.
\<close>

definition unhex :: "char \<Rightarrow> nat option" where
  "unhex c =
     (let n = (of_char c :: nat) in
      if 48 \<le> n \<and> n \<le> 57 then Some (n - 48)
      else if 97 \<le> n \<and> n \<le> 102 then Some (n - 87)
      else if 65 \<le> n \<and> n \<le> 70 then Some (n - 55)
      else None)"

fun bufferFromHex :: "string \<Rightarrow> byte list" where
  "bufferFromHex (a # b # cs) =
     (case unhex a of
        None \<Rightarrow> []
      | Some x \<Rightarrow> (case unhex b of
          None \<Rightarrow> []
        | Some y \<Rightarrow> of_nat (x * 16 + y) # bufferFromHex cs))"
| "bufferFromHex _ = []"

text \<open>
  \<open>buf.toString('utf-8')\<close>: the decoder never throws; every maximal ill-formed
  subsequence becomes U+FFFD. The state is the number of continuation bytes still needed,
  the code point so far and the bounds allowed for the next byte; a byte that breaks a
  sequence is looked at again as the start of the next one.
\<close>

fun utf8Decode :: "nat \<Rightarrow> nat \<Rightarrow> byte \<Rightarrow> byte \<Rightarrow> byte list \<Rightarrow> jstring" where
  "utf8Decode needed cp lo hi [] = (if needed = 0 then [] else [0xFFFD])"
| "utf8Decode needed cp lo hi (b # bs) =
     (if needed = 0 then
        (if b \<le> 0x7F then unat b # utf8Decode 0 0 0x80 0xBF bs
         else if 0xC2 \<le> b \<and> b \<le> 0xDF then utf8Decode 1 (unat b - 0xC0) 0x80 0xBF bs
         else if 0xE0 \<le> b \<and> b \<le> 0xEF then
           utf8Decode 2 (unat b - 0xE0)
             (if b = 0xE0 then 0xA0 else 0x80) (if b = 0xED then 0x9F else 0xBF) bs
         else if 0xF0 \<le> b \<and> b \<le> 0xF4 then
           utf8Decode 3 (unat b - 0xF0)
             (if b = 0xF0 then 0x90 else 0x80) (if b = 0xF4 then 0x8F else 0xBF) bs
         else 0xFFFD # utf8Decode 0 0 0x80 0xBF bs)
      else if \<not> (lo \<le> b \<and> b \<le> hi) then 0xFFFD # utf8Decode 0 0 0x80 0xBF (b # bs)
      else if needed = 1 then (cp * 64 + (unat b - 0x80)) # utf8Decode 0 0 0x80 0xBF bs
      else utf8Decode (needed - 1) (cp * 64 + (unat b - 0x80)) 0x80 0xBF bs)"

definition toStringUtf8 :: "byte list \<Rightarrow> jstring" where
  "toStringUtf8 bs = utf8Decode 0 0 0x80 0xBF bs"

text \<open>\<open>buf.toString('hex')\<close>: two lower-case digits per byte.\<close>

definition hexDigit :: "nat \<Rightarrow> nat" where
  "hexDigit n = (if n < 10 then 48 + n else 87 + n)"

definition toStringHex :: "byte list \<Rightarrow> jstring" where
  "toStringHex bs = concat (map (\<lambda>b. [hexDigit (unat b div 16), hexDigit (unat b mod 16)]) bs)"

text \<open>
  The readers of \<open>Buffer\<close> throw a RangeError when the read leaves the buffer: \<open>None\<close>.
  \<open>buf.slice(s, e)\<close> clamps and never throws.
\<close>

definition readUInt16BE :: "byte list \<Rightarrow> nat \<Rightarrow> nat option" where
  "readUInt16BE buffer offset =
     (if offset + 2 \<le> length buffer
      then Some (unat (buffer ! offset) * 256 + unat (buffer ! (offset + 1)))
      else None)"

definition readBigUInt64BE :: "byte list \<Rightarrow> nat \<Rightarrow> nat option" where
  "readBigUInt64BE buffer offset =
     (if offset + 8 \<le> length buffer
      then Some (foldl (\<lambda>acc b. acc * 256 + unat b) 0 (take 8 (drop offset buffer)))
      else None)"

definition bufferSlice :: "byte list \<Rightarrow> nat \<Rightarrow> nat \<Rightarrow> byte list" where
  "bufferSlice buffer s e = take (e - s) (drop s buffer)"

section \<open>The binary tuple decoder\<close>

text \<open>
  The decoded tuple is a plain object whose values are all strings. \<open>result[key] = value\<close>
  creates or overwrites an own property, except for the key \<open>__proto__\<close>: that
  assignment reaches the accessor of \<open>Object.prototype\<close>, which ignores a string, so the
  object keeps its properties.
\<close>

type_synonym jsobject = "jstring \<rightharpoonup> jstring"

definition setProp :: "jsobject \<Rightarrow> jstring \<Rightarrow> jstring \<Rightarrow> jsobject" where
  "setProp obj key v = (if key = jstr ''__proto__'' then obj else obj(key \<mapsto> v))"

text \<open>
  One pass through the body of the \<open>while\<close> loop of \<open>parseClarityTuple\<close>: \<open>Break\<close> leaves
  the loop, \<open>Raise\<close> is an exception of a reader, \<open>Continue\<close> carries the new offset and
  the object after the assignment.
\<close>

datatype fieldStep = Break | Raise | Continue nat jsobject

definition tupleField :: "byte list \<Rightarrow> nat \<Rightarrow> jsobject \<Rightarrow> fieldStep" where
  "tupleField buffer offset result =
     (if offset + 2 > length buffer then Break
      else case readUInt16BE buffer offset of
        None \<Rightarrow> Raise
      | Some keyLen \<Rightarrow>
          let offset1 = offset + 2 in
          if offset1 + keyLen > length buffer then Break
          else
            let key = toStringUtf8 (bufferSlice buffer offset1 (offset1 + keyLen));
                offset2 = offset1 + keyLen in
            if offset2 \<ge> length buffer then Break
            else
              let valueType = buffer ! offset2;
                  offset3 = offset2 + 1 in
              if valueType = 0x00 \<or> valueType = 0x01 then
                (if offset3 + 16 > length buffer then Break
                 else case readBigUInt64BE buffer offset3 of
                   None \<Rightarrow> Raise
                 | Some v \<Rightarrow> Continue (offset3 + 16) (setProp result key (decimal v)))
              else if valueType = 0x06 \<or> valueType = 0x07 then
                (if offset3 + 2 > length buffer then Break
                 else case readUInt16BE buffer offset3 of
                   None \<Rightarrow> Raise
                 | Some strLen \<Rightarrow>
                     let offset4 = offset3 + 2 in
                     if offset4 + strLen > length buffer then Break
                     else Continue (offset4 + strLen)
                       (setProp result key
                          (toStringUtf8 (bufferSlice buffer offset4 (offset4 + strLen)))))
              else if valueType = 0x09 then
                (if offset3 + 21 > length buffer then Break
                 else Continue (offset3 + 21)
                   (setProp result key
                      (jstr ''0x'' @ toStringHex (bufferSlice buffer offset3 (offset3 + 21)))))
              else Break)"

text \<open>
  The loop \<open>while (offset < buffer.length - 1)\<close>; \<open>None\<close> is an exception leaving it.
\<close>

function tupleWalk :: "byte list \<Rightarrow> nat \<Rightarrow> jsobject \<Rightarrow> jsobject option" where
  "tupleWalk buffer offset result =
     (if offset + 1 < length buffer then
        (case tupleField buffer offset result of
           Break \<Rightarrow> Some result
         | Raise \<Rightarrow> None
         | Continue offset' result' \<Rightarrow> tupleWalk buffer offset' result')
      else Some result)"
  by pat_completeness auto
termination
  by (relation "measure (\<lambda>(buffer, offset, result). length buffer - offset)")
     (auto simp: tupleField_def Let_def split: if_splits option.splits)

declare tupleWalk.simps [simp del]

text \<open>
  \<open>parseClarityTuple\<close> starts after the type byte and the two length bytes; its
  \<open>catch\<close> turns any exception into the empty object.
\<close>

definition parseClarityTuple :: "byte list \<Rightarrow> jsobject" where
  "parseClarityTuple buffer =
     (case tupleWalk buffer 3 Map.empty of
        Some result \<Rightarrow> result
      | None \<Rightarrow> Map.empty)"

text \<open>
  \<open>decodeClarityValue\<close>. \<open>JSON.parse\<close> is the runtime's parser, a parameter here:
  \<open>None\<close> when it throws. The result is the parsed JSON value or an object.
\<close>

datatype 'j decoded = Parsed 'j | Obj jsobject

definition strip0x :: "string \<Rightarrow> string" where
  "strip0x hexValue = (if take 2 hexValue = ''0x'' then drop 2 hexValue else hexValue)"

definition decodeClarityValue :: "(jstring \<Rightarrow> 'j option) \<Rightarrow> string \<Rightarrow> 'j decoded" where
  "decodeClarityValue jsonParse hexValue =
     (let hex = strip0x hexValue;
          asString = toStringUtf8 (bufferFromHex hex)
      in case jsonParse asString of
        Some j \<Rightarrow> Parsed j
      | None \<Rightarrow>
          let buffer = bufferFromHex hex in
          if length buffer > 0 \<and> buffer ! 0 = 0x0c then Obj (parseClarityTuple buffer)
          else Obj [jstr ''raw'' \<mapsto> jstr hexValue])"

subsection \<open>The documented layout of a field\<close>

text \<open>
  The layout of one field as the specification words it: a 2-byte big-endian key length,
  the key bytes, a 1-byte value-type tag, then the value: 16 bytes for an integer (tags
  0x00 and 0x01), a 2-byte big-endian length and that many bytes for a string (tags 0x06
  and 0x07), 21 bytes for a principal (tag 0x09). \<open>decodedValue\<close> is the string the
  decoder stores for a field; \<open>malformedField\<close> holds of the bytes at which no complete
  field starts: the key length, the key, the tag or the value runs past the end, or the
  tag is not one of the five.
\<close>

record encField =
  fkey :: "byte list"
  ftag :: byte
  fpayload :: "byte list"

definition u16be :: "nat \<Rightarrow> byte list" where
  "u16be n = [of_nat (n div 256), of_nat (n mod 256)]"

definition wfField :: "encField \<Rightarrow> bool" where
  "wfField f \<longleftrightarrow>
     length (fkey f) < 65536 \<and>
     (if ftag f = 0x00 \<or> ftag f = 0x01 then length (fpayload f) = 16
      else if ftag f = 0x06 \<or> ftag f = 0x07 then length (fpayload f) < 65536
      else ftag f = 0x09 \<and> length (fpayload f) = 21)"

definition encodeField :: "encField \<Rightarrow> byte list" where
  "encodeField f =
     u16be (length (fkey f)) @ fkey f @ [ftag f] @
     (if ftag f = 0x06 \<or> ftag f = 0x07 then u16be (length (fpayload f)) else []) @
     fpayload f"

definition decodedValue :: "encField \<Rightarrow> jstring" where
  "decodedValue f =
     (if ftag f = 0x00 \<or> ftag f = 0x01
        then decimal (foldl (\<lambda>acc b. acc * 256 + unat b) 0 (take 8 (fpayload f)))
      else if ftag f = 0x06 \<or> ftag f = 0x07 then toStringUtf8 (fpayload f)
      else jstr ''0x'' @ toStringHex (fpayload f))"

definition assignField :: "jsobject \<Rightarrow> encField \<Rightarrow> jsobject" where
  "assignField obj f = setProp obj (toStringUtf8 (fkey f)) (decodedValue f)"

definition malformedField :: "byte list \<Rightarrow> bool" where
  "malformedField t \<longleftrightarrow>
     (if length t < 2 then True
      else
        let keyLen = unat (t ! 0) * 256 + unat (t ! 1) in
        if length t < 2 + keyLen + 1 then True
        else
          let tag = t ! (2 + keyLen); v = drop (2 + keyLen + 1) t in
          if tag = 0x00 \<or> tag = 0x01 then length v < 16
          else if tag = 0x06 \<or> tag = 0x07 then
            length v < 2 \<or> length v < 2 + (unat (v ! 0) * 256 + unat (v ! 1))
          else if tag = 0x09 then length v < 21
          else True)"

section \<open>The ledger, the leaderboard and the notifier\<close>

text \<open>
  The fields declared \<open>number\<close> hold counts (points, fees in the smallest currency unit,
  block heights, seconds): they are \<open>int\<close> here. The arithmetic of JavaScript numbers is
  the arithmetic of \<open>int\<close> on integers of safe size (\<open>safeInteger\<close> below, up to
  \<open>2 ^ 53 - 1\<close>); a sum that leaves this range is rounded by the code and is not the sum
  of the model. A \<open>Date\<close> is its number of milliseconds. The field
  \<open>id\<close> of an activity record is \<open>act_id\<close>, the field \<open>user\<close> of a leaderboard entry
  is \<open>entry_user\<close>.
\<close>

datatype jsval = Num int | Str string | Undefined

record ActivityRecord =
  act_id :: string
  user :: string
  eventType :: string
  points :: int
  fee :: int
  blockHeight :: int
  txHash :: string
  timestamp :: int
  metadata :: "(string \<times> jsval) list"

record LeaderboardEntry =
  entry_user :: string
  totalPoints :: int
  totalPulses :: int
  currentStreak :: int
  longestStreak :: int
  tier :: string
  lastActive :: int

record BlockIdentifier =
  index :: int
  hash :: string

record RollbackBlock =
  block_identifier :: BlockIdentifier

text \<open>The event interfaces; each field carries the name of its interface in front.\<close>

record PulseEvent =
  pulse_user :: string
  pulse_points :: int
  pulse_streak :: int
  pulse_fee :: int
  pulse_total_pulses :: int

record BoostEvent =
  boost_user :: string
  boost_points :: int
  boost_fee :: int
  boost_total_boosts :: int

record CheckinEvent =
  checkin_user :: string
  checkin_day :: int
  checkin_points :: int

record MegaPulseEvent =
  mega_user :: string
  mega_multiplier :: int
  mega_points :: int
  mega_fee :: int

record ChallengeEvent =
  challenge_user :: string
  challenge_id :: int
  challenge_points :: int
  challenge_fee :: int

record RewardEvent =
  reward_user :: string
  reward_id :: int
  points_spent :: int
  stx_value :: int
  new_tier :: string

record TierEvent =
  tier_user :: string
  tier_name :: string
  total_points :: int
  previous_tier :: string

record NFTData =
  nft_recipient :: "string option"
  asset_identifier :: jsval

record STXTransferEvent =
  sender :: string
  recipient :: string
  amount :: int
  block_height :: int

text \<open>The value of \<open>eventData.event\<close> selects the interface; any other tag is \<open>OtherEvent\<close>.\<close>

datatype PrintEvent =
    PulseSent PulseEvent
  | BoostActivated BoostEvent
  | DailyCheckin CheckinEvent
  | MegaPulse MegaPulseEvent
  | ChallengeCompleted ChallengeEvent
  | RewardClaimed RewardEvent
  | TierAchieved TierEvent
  | OtherEvent string

subsection \<open>The emitter\<close>

text \<open>
  \<open>WebhookHandler\<close> extends the runtime's \<open>EventEmitter\<close>: \<open>on\<close> appends a listener
  to the channel's list, \<open>emit\<close> calls the listeners of the channel one after the other in
  that order, and an exception of a listener leaves \<open>emit\<close> at once. A listener is known
  by a number and by whether it throws on a given argument; \<open>delivered\<close> records each
  call. Listeners here only observe: they do not change the handler, and nobody listens
  to the registration of a listener. (On the channel \<open>error\<close> an emit without listeners
  throws.)
\<close>

datatype emitted =
    EActivity ActivityRecord
  | EEntry LeaderboardEntry
  | ERollback "RollbackBlock list"

record Subscriber =
  sub_id :: nat
  throws :: "emitted \<Rightarrow> bool"

datatype signal = Ok | Raised

type_synonym delivery = "nat \<times> string \<times> emitted"

record WebhookHandler =
  activities :: "ActivityRecord list"
  leaderboard :: "string \<rightharpoonup> LeaderboardEntry"
  totalFees :: int
  totalTransactions :: int
  listeners :: "string \<Rightarrow> Subscriber list"
  delivered :: "delivery list"

definition newHandler :: WebhookHandler where
  "newHandler =
     \<lparr>activities = [], leaderboard = Map.empty, totalFees = 0, totalTransactions = 0,
      listeners = (\<lambda>channel. []), delivered = []\<rparr>"

definition on :: "string \<Rightarrow> Subscriber \<Rightarrow> WebhookHandler \<Rightarrow> WebhookHandler" where
  "on channel s h = h\<lparr>listeners := (listeners h)(channel := listeners h channel @ [s])\<rparr>"

fun callListeners ::
  "Subscriber list \<Rightarrow> string \<Rightarrow> emitted \<Rightarrow> delivery list \<Rightarrow> signal \<times> delivery list" where
  "callListeners [] channel x calls = (Ok, calls)"
| "callListeners (s # ss) channel x calls =
     (if throws s x then (Raised, calls @ [(sub_id s, channel, x)])
      else callListeners ss channel x (calls @ [(sub_id s, channel, x)]))"

definition emit :: "string \<Rightarrow> emitted \<Rightarrow> WebhookHandler \<Rightarrow> signal \<times> WebhookHandler" where
  "emit channel x h =
     (if channel = ''error'' \<and> listeners h channel = [] then (Raised, h)
      else (fst (callListeners (listeners h channel) channel x (delivered h)),
            h\<lparr>delivered := snd (callListeners (listeners h channel) channel x (delivered h))\<rparr>))"

subsection \<open>The handlers\<close>

text \<open>
  Each handler returns whether it ended by an exception, and the handler object as it
  then is: what was assigned before the exception stays assigned. \<open>now\<close> is the clock
  read by \<open>new Date()\<close>.
\<close>

definition updateLeaderboard ::
  "int \<Rightarrow> string \<Rightarrow> int \<Rightarrow> int \<Rightarrow> int \<Rightarrow> WebhookHandler \<Rightarrow> signal \<times> WebhookHandler" where
  "updateLeaderboard now usr pts pulses streak h =
     (let entry0 = (case leaderboard h usr of
                      Some e \<Rightarrow> e
                    | None \<Rightarrow> \<lparr>entry_user = usr, totalPoints = 0, totalPulses = 0,
                               currentStreak = 0, longestStreak = 0, tier = ''none'',
                               lastActive = now\<rparr>);
          entry1 = entry0\<lparr>totalPoints := totalPoints entry0 + pts,
                         totalPulses := totalPulses entry0 + pulses,
                         lastActive := now\<rparr>;
          entry2 = (if streak > 0
                    then entry1\<lparr>currentStreak := streak,
                                longestStreak := (if streak > longestStreak entry1 then streak
                                                  else longestStreak entry1)\<rparr>
                    else entry1);
          entry3 = (if totalPoints entry2 \<ge> 5000 then entry2\<lparr>tier := ''platinum''\<rparr>
                    else if totalPoints entry2 \<ge> 1000 then entry2\<lparr>tier := ''gold''\<rparr>
                    else if totalPoints entry2 \<ge> 500 then entry2\<lparr>tier := ''silver''\<rparr>
                    else if totalPoints entry2 \<ge> 100 then entry2\<lparr>tier := ''bronze''\<rparr>
                    else entry2)
      in emit ''leaderboard-update'' (EEntry entry3)
           (h\<lparr>leaderboard := (leaderboard h)(usr \<mapsto> entry3)\<rparr>))"

definition pulseActivity :: "PulseEvent \<Rightarrow> string \<Rightarrow> int \<Rightarrow> int \<Rightarrow> ActivityRecord" where
  "pulseActivity event tx height ts =
     \<lparr>act_id = tx @ ''-pulse'', user = pulse_user event, eventType = ''pulse'',
      points = pulse_points event, fee = pulse_fee event, blockHeight = height, txHash = tx,
      timestamp = ts * 1000,
      metadata = [(''streak'', Num (pulse_streak event)),
                  (''totalPulses'', Num (pulse_total_pulses event))]\<rparr>"

definition handlePulseEvent ::
  "int \<Rightarrow> PulseEvent \<Rightarrow> string \<Rightarrow> int \<Rightarrow> int \<Rightarrow> WebhookHandler \<Rightarrow> signal \<times> WebhookHandler" where
  "handlePulseEvent now event tx height ts h =
     (let activity = pulseActivity event tx height ts;
          h1 = h\<lparr>activities := activities h @ [activity],
                  totalFees := totalFees h + pulse_fee event\<rparr>;
          r = updateLeaderboard now (pulse_user event) (pulse_points event) 1 (pulse_streak event) h1
      in if fst r = Raised then r else emit ''pulse'' (EActivity activity) (snd r))"

definition boostActivity :: "BoostEvent \<Rightarrow> string \<Rightarrow> int \<Rightarrow> int \<Rightarrow> ActivityRecord" where
  "boostActivity event tx height ts =
     \<lparr>act_id = tx @ ''-boost'', user = boost_user event, eventType = ''boost'',
      points = boost_points event, fee = boost_fee event, blockHeight = height, txHash = tx,
      timestamp = ts * 1000,
      metadata = [(''totalBoosts'', Num (boost_total_boosts event))]\<rparr>"

definition handleBoostEvent ::
  "int \<Rightarrow> BoostEvent \<Rightarrow> string \<Rightarrow> int \<Rightarrow> int \<Rightarrow> WebhookHandler \<Rightarrow> signal \<times> WebhookHandler" where
  "handleBoostEvent now event tx height ts h =
     (let activity = boostActivity event tx height ts;
          h1 = h\<lparr>activities := activities h @ [activity],
                  totalFees := totalFees h + boost_fee event\<rparr>;
          r = updateLeaderboard now (boost_user event) (boost_points event) 0 0 h1
      in if fst r = Raised then r else emit ''boost'' (EActivity activity) (snd r))"

definition checkinActivity :: "CheckinEvent \<Rightarrow> string \<Rightarrow> int \<Rightarrow> int \<Rightarrow> ActivityRecord" where
  "checkinActivity event tx height ts =
     \<lparr>act_id = tx @ ''-checkin'', user = checkin_user event, eventType = ''checkin'',
      points = checkin_points event, fee = 0, blockHeight = height, txHash = tx,
      timestamp = ts * 1000,
      metadata = [(''day'', Num (checkin_day event))]\<rparr>"

definition handleCheckinEvent ::
  "int \<Rightarrow> CheckinEvent \<Rightarrow> string \<Rightarrow> int \<Rightarrow> int \<Rightarrow> WebhookHandler \<Rightarrow> signal \<times> WebhookHandler" where
  "handleCheckinEvent now event tx height ts h =
     (let activity = checkinActivity event tx height ts;
          h1 = h\<lparr>activities := activities h @ [activity]\<rparr>;
          r = updateLeaderboard now (checkin_user event) (checkin_points event) 0 0 h1
      in if fst r = Raised then r else emit ''checkin'' (EActivity activity) (snd r))"

definition megaActivity :: "MegaPulseEvent \<Rightarrow> string \<Rightarrow> int \<Rightarrow> int \<Rightarrow> ActivityRecord" where
  "megaActivity event tx height ts =
     \<lparr>act_id = tx @ ''-mega'', user = mega_user event, eventType = ''mega-pulse'',
      points = mega_points event, fee = mega_fee event, blockHeight = height, txHash = tx,
      timestamp = ts * 1000,
      metadata = [(''multiplier'', Num (mega_multiplier event))]\<rparr>"

definition handleMegaPulseEvent ::
  "int \<Rightarrow> MegaPulseEvent \<Rightarrow> string \<Rightarrow> int \<Rightarrow> int \<Rightarrow> WebhookHandler \<Rightarrow> signal \<times> WebhookHandler" where
  "handleMegaPulseEvent now event tx height ts h =
     (let activity = megaActivity event tx height ts;
          h1 = h\<lparr>activities := activities h @ [activity],
                  totalFees := totalFees h + mega_fee event\<rparr>;
          r = updateLeaderboard now (mega_user event) (mega_points event) (mega_multiplier event) 0 h1
      in if fst r = Raised then r else emit ''mega-pulse'' (EActivity activity) (snd r))"

definition challengeActivity :: "ChallengeEvent \<Rightarrow> string \<Rightarrow> int \<Rightarrow> int \<Rightarrow> ActivityRecord" where
  "challengeActivity event tx height ts =
     \<lparr>act_id = tx @ ''-challenge'', user = challenge_user event, eventType = ''challenge'',
      points = challenge_points event, fee = challenge_fee event, blockHeight = height,
      txHash = tx, timestamp = ts * 1000,
      metadata = [(''challengeId'', Num (challenge_id event))]\<rparr>"

definition handleChallengeEvent ::
  "int \<Rightarrow> ChallengeEvent \<Rightarrow> string \<Rightarrow> int \<Rightarrow> int \<Rightarrow> WebhookHandler \<Rightarrow> signal \<times> WebhookHandler" where
  "handleChallengeEvent now event tx height ts h =
     (let activity = challengeActivity event tx height ts;
          h1 = h\<lparr>activities := activities h @ [activity],
                  totalFees := totalFees h + challenge_fee event\<rparr>;
          r = updateLeaderboard now (challenge_user event) (challenge_points event) 0 0 h1
      in if fst r = Raised then r else emit ''challenge'' (EActivity activity) (snd r))"

definition rewardActivity :: "RewardEvent \<Rightarrow> string \<Rightarrow> int \<Rightarrow> int \<Rightarrow> ActivityRecord" where
  "rewardActivity event tx height ts =
     \<lparr>act_id = tx @ ''-reward'', user = reward_user event, eventType = ''reward'',
      points = - points_spent event, fee = 0, blockHeight = height, txHash = tx,
      timestamp = ts * 1000,
      metadata = [(''rewardId'', Num (reward_id event)), (''stxValue'', Num (stx_value event)),
                  (''newTier'', Str (new_tier event))]\<rparr>"

definition handleRewardEvent ::
  "RewardEvent \<Rightarrow> string \<Rightarrow> int \<Rightarrow> int \<Rightarrow> WebhookHandler \<Rightarrow> signal \<times> WebhookHandler" where
  "handleRewardEvent event tx height ts h =
     (let activity = rewardActivity event tx height ts;
          h1 = h\<lparr>activities := activities h @ [activity]\<rparr>;
          h2 = (case leaderboard h1 (reward_user event) of
                  Some entry \<Rightarrow>
                    h1\<lparr>leaderboard :=
                         (leaderboard h1)(reward_user event \<mapsto> entry\<lparr>tier := new_tier event\<rparr>)\<rparr>
                | None \<Rightarrow> h1)
      in emit ''reward'' (EActivity activity) h2)"

definition tierActivity :: "TierEvent \<Rightarrow> string \<Rightarrow> int \<Rightarrow> int \<Rightarrow> ActivityRecord" where
  "tierActivity event tx height ts =
     \<lparr>act_id = tx @ ''-tier'', user = tier_user event, eventType = ''tier'',
      points = 0, fee = 0, blockHeight = height, txHash = tx,
      timestamp = ts * 1000,
      metadata = [(''tier'', Str (tier_name event)), (''previousTier'', Str (previous_tier event)),
                  (''totalPoints'', Num (total_points event))]\<rparr>"

definition handleTierEvent ::
  "TierEvent \<Rightarrow> string \<Rightarrow> int \<Rightarrow> int \<Rightarrow> WebhookHandler \<Rightarrow> signal \<times> WebhookHandler" where
  "handleTierEvent event tx height ts h =
     (let activity = tierActivity event tx height ts;
          h1 = h\<lparr>activities := activities h @ [activity]\<rparr>;
          h2 = (case leaderboard h1 (tier_user event) of
                  Some entry \<Rightarrow>
                    h1\<lparr>leaderboard :=
                         (leaderboard h1)(tier_user event \<mapsto> entry\<lparr>tier := tier_name event\<rparr>)\<rparr>
                | None \<Rightarrow> h1)
      in emit ''tier'' (EActivity activity) h2)"

text \<open>
  \<open>processPrintEvent\<close>: the \<open>switch\<close> on the tag, inside a \<open>try\<close> whose \<open>catch\<close> only
  logs, so an exception of a handler ends there. The event data is taken as parsed and
  as having the fields that the interface of its tag declares.
\<close>

definition processPrintEvent ::
  "int \<Rightarrow> PrintEvent \<Rightarrow> string \<Rightarrow> int \<Rightarrow> int \<Rightarrow> WebhookHandler \<Rightarrow> WebhookHandler" where
  "processPrintEvent now eventData tx height ts h =
     (case eventData of
        PulseSent e \<Rightarrow> snd (handlePulseEvent now e tx height ts h)
      | BoostActivated e \<Rightarrow> snd (handleBoostEvent now e tx height ts h)
      | DailyCheckin e \<Rightarrow> snd (handleCheckinEvent now e tx height ts h)
      | MegaPulse e \<Rightarrow> snd (handleMegaPulseEvent now e tx height ts h)
      | ChallengeCompleted e \<Rightarrow> snd (handleChallengeEvent now e tx height ts h)
      | RewardClaimed e \<Rightarrow> snd (handleRewardEvent e tx height ts h)
      | TierAchieved e \<Rightarrow> snd (handleTierEvent e tx height ts h)
      | OtherEvent tag \<Rightarrow> h)"

definition nftActivity :: "NFTData \<Rightarrow> string \<Rightarrow> int \<Rightarrow> int \<Rightarrow> ActivityRecord" where
  "nftActivity data tx height ts =
     \<lparr>act_id = tx @ ''-nft'',
      user = (case nft_recipient data of
                Some r \<Rightarrow> if r = [] then ''unknown'' else r
              | None \<Rightarrow> ''unknown''),
      eventType = ''badge-minted'', points = 0, fee = 0, blockHeight = height, txHash = tx,
      timestamp = ts * 1000,
      metadata = [(''tokenId'', asset_identifier data),
                  (''recipient'', (case nft_recipient data of Some r \<Rightarrow> Str r | None \<Rightarrow> Undefined))]\<rparr>"

definition processNFTEvent ::
  "NFTData \<Rightarrow> string \<Rightarrow> int \<Rightarrow> int \<Rightarrow> WebhookHandler \<Rightarrow> signal \<times> WebhookHandler" where
  "processNFTEvent data tx height ts h =
     (let activity = nftActivity data tx height ts
      in emit ''badge'' (EActivity activity) (h\<lparr>activities := activities h @ [activity]\<rparr>))"

definition stxActivity :: "STXTransferEvent \<Rightarrow> string \<Rightarrow> int \<Rightarrow> int \<Rightarrow> ActivityRecord" where
  "stxActivity data tx height ts =
     \<lparr>act_id = tx @ ''-stx'', user = sender data, eventType = ''stx-transfer'',
      points = 0, fee = amount data, blockHeight = height, txHash = tx,
      timestamp = ts * 1000,
      metadata = [(''sender'', Str (sender data)), (''recipient'', Str (recipient data)),
                  (''amount'', Num (amount data))]\<rparr>"

definition processSTXTransfer ::
  "STXTransferEvent \<Rightarrow> string \<Rightarrow> int \<Rightarrow> int \<Rightarrow> WebhookHandler \<Rightarrow> signal \<times> WebhookHandler" where
  "processSTXTransfer data tx height ts h =
     (let activity = stxActivity data tx height ts
      in emit ''stx-transfer'' (EActivity activity) (h\<lparr>activities := activities h @ [activity]\<rparr>))"

text \<open>
  \<open>handleRollback\<close>: \<open>None\<close> is an absent list. Each block of the list filters the log
  once, then the list is published.
\<close>

definition rollbackBlock :: "WebhookHandler \<Rightarrow> RollbackBlock \<Rightarrow> WebhookHandler" where
  "rollbackBlock h block =
     h\<lparr>activities :=
         filter (\<lambda>activity. blockHeight activity \<noteq> index (block_identifier block))
           (activities h)\<rparr>"

definition handleRollback ::
  "RollbackBlock list option \<Rightarrow> WebhookHandler \<Rightarrow> signal \<times> WebhookHandler" where
  "handleRollback rollback h =
     (case rollback of
        None \<Rightarrow> (Ok, h)
      | Some blocks \<Rightarrow> emit ''rollback'' (ERollback blocks) (foldl rollbackBlock h blocks))"

text \<open>
  \<open>getActivities(limit = 100)\<close> is \<open>this.activities.slice(-limit).reverse()\<close>.
  \<open>slice(start)\<close> counts a negative start from the end and clamps at both ends.
\<close>

definition arraySlice :: "int \<Rightarrow> 'a list \<Rightarrow> 'a list" where
  "arraySlice start xs =
     (let len = int (length xs);
          k = (if start < 0 then max (len + start) 0 else min start len)
      in drop (nat k) xs)"

definition getActivities :: "int option \<Rightarrow> WebhookHandler \<Rightarrow> ActivityRecord list" where
  "getActivities limit h =
     (let n = (case limit of None \<Rightarrow> 100 | Some l \<Rightarrow> l)
      in rev (arraySlice (- n) (activities h)))"

text \<open>A run of leaderboard updates, one after the other, whatever the listeners do.\<close>

definition runUpdates ::
  "(int \<times> string \<times> int \<times> int \<times> int) list \<Rightarrow> WebhookHandler \<Rightarrow> WebhookHandler" where
  "runUpdates ups h =
     foldl (\<lambda>h (now, usr, pts, pulses, streak). snd (updateLeaderboard now usr pts pulses streak h))
       h ups"

subsection \<open>The payload and its transactions\<close>

text \<open>
  The payload as the interface \<open>ChainhookPayload\<close> declares it: the list \<open>apply\<close> of
  blocks (\<open>payload_apply\<close>), each with its identifier, its timestamp and its
  transactions, and the optional list \<open>rollback\<close>. A transaction has the hash of its
  identifier and the events of its receipt. An event of type \<open>print_event\<close> or
  \<open>SmartContractEvent\<close> is a \<open>PrintReceipt\<close>, one of type \<open>nft_mint_event\<close> or
  \<open>NFTMintEvent\<close> an \<open>NFTMintReceipt\<close>, one of type \<open>stx_transfer_event\<close> or
  \<open>STXTransferEvent\<close> an \<open>STXTransferReceipt\<close>, each with the data its handler declares;
  an event of any other type is an \<open>OtherReceipt\<close>. Such a payload has the array
  \<open>apply\<close> at its top, so the first shape applies, and its transactions have no list
  \<open>operations\<close>.
\<close>

datatype ReceiptEvent =
    PrintReceipt PrintEvent
  | NFTMintReceipt NFTData
  | STXTransferReceipt STXTransferEvent
  | OtherReceipt string

datatype Transaction = Transaction (tx_hash: string) (tx_events: "ReceiptEvent list")

datatype Block =
  Block (blk_identifier: BlockIdentifier) (blk_timestamp: int) (blk_transactions: "Transaction list")

datatype ChainhookPayload =
  ChainhookPayload (payload_apply: "Block list") (payload_rollback: "RollbackBlock list option")

text \<open>
  \<open>processTransaction\<close>: the loop over the events of the transaction. The print handler
  keeps its exceptions; an exception of the other two handlers leaves the loop and the
  function. One reading \<open>now\<close> of the clock serves the whole payload.
\<close>

fun processEvents ::
  "int \<Rightarrow> ReceiptEvent list \<Rightarrow> string \<Rightarrow> int \<Rightarrow> int \<Rightarrow> WebhookHandler \<Rightarrow> signal \<times> WebhookHandler" where
  "processEvents now [] tx height ts h = (Ok, h)"
| "processEvents now (event # events) tx height ts h =
     (let r = (case event of
                 PrintReceipt d \<Rightarrow> (Ok, processPrintEvent now d tx height ts h)
               | NFTMintReceipt d \<Rightarrow> processNFTEvent d tx height ts h
               | STXTransferReceipt d \<Rightarrow> processSTXTransfer d tx height ts h
               | OtherReceipt t \<Rightarrow> (Ok, h))
      in if fst r = Raised then r else processEvents now events tx height ts (snd r))"

definition processTransaction ::
  "int \<Rightarrow> Transaction \<Rightarrow> int \<Rightarrow> int \<Rightarrow> WebhookHandler \<Rightarrow> signal \<times> WebhookHandler" where
  "processTransaction now tx height ts h =
     processEvents now (tx_events tx) (tx_hash tx) height ts h"

text \<open>
  \<open>processPayload\<close>: a rollback list that is not empty is handled first; then every
  transaction of every block of \<open>apply\<close> is processed in order, with the index and the
  timestamp of its block; at the end the number of transactions of these blocks is added
  to \<open>totalTransactions\<close>. An exception on the way ends the function before that.
\<close>

fun processTransactions ::
  "int \<Rightarrow> Transaction list \<Rightarrow> int \<Rightarrow> int \<Rightarrow> WebhookHandler \<Rightarrow> signal \<times> WebhookHandler" where
  "processTransactions now [] height ts h = (Ok, h)"
| "processTransactions now (tx # txs) height ts h =
     (let r = processTransaction now tx height ts h
      in if fst r = Raised then r else processTransactions now txs height ts (snd r))"

fun processBlocks :: "int \<Rightarrow> Block list \<Rightarrow> WebhookHandler \<Rightarrow> signal \<times> WebhookHandler" where
  "processBlocks now [] h = (Ok, h)"
| "processBlocks now (block # blocks) h =
     (let r = processTransactions now (blk_transactions block)
                (index (blk_identifier block)) (blk_timestamp block) h
      in if fst r = Raised then r else processBlocks now blocks (snd r))"

definition txCount :: "Block list \<Rightarrow> int" where
  "txCount applyBlocks =
     foldl (\<lambda>sum block. sum + int (length (blk_transactions block))) 0 applyBlocks"

definition processPayload ::
  "int \<Rightarrow> ChainhookPayload \<Rightarrow> WebhookHandler \<Rightarrow> signal \<times> WebhookHandler" where
  "processPayload now payload h =
     (let rollback = (case payload_rollback payload of None \<Rightarrow> [] | Some blocks \<Rightarrow> blocks);
          r0 = (if length rollback > 0 then handleRollback (Some rollback) h else (Ok, h))
      in if fst r0 = Raised then r0
         else
           let applyBlocks = payload_apply payload;
               r1 = processBlocks now applyBlocks (snd r0)
           in if fst r1 = Raised then r1
              else (Ok, (snd r1)\<lparr>totalTransactions :=
                                  totalTransactions (snd r1) + txCount applyBlocks\<rparr>))"

text \<open>
  The safe range of integers, \<open>Number.isSafeInteger\<close>: the sums of the handler are exact
  while their operands and results stay in it; beyond it the code rounds.
\<close>

definition safeInteger :: "int \<Rightarrow> bool" where
  "safeInteger n \<longleftrightarrow> \<bar>n\<bar> \<le> 2 ^ 53 - 1"

section \<open>The payload shapes\<close>

text \<open>
  A webhook payload is a parsed JSON value; \<open>JObj\<close> lists the properties of an object,
  and a name is looked up from the front. \<open>getProp x k\<close> is \<open>x.k\<close> for the property
  names the handler reads: an object has the listed properties, and every other value has
  none of them. \<open>optProp x k\<close> is \<open>x?.k\<close>. The handler reads \<open>x.k\<close> only where \<open>x\<close>
  is already known to be truthy or to hold an array, so no read throws.
\<close>

datatype json =
    JUndefined
  | JNull
  | JBool bool
  | JNum real
  | JStr string
  | JArr "json list"
  | JObj "(string \<times> json) list"

fun getProp :: "json \<Rightarrow> string \<Rightarrow> json" where
  "getProp (JObj kvs) k = (case map_of kvs k of Some v \<Rightarrow> v | None \<Rightarrow> JUndefined)"
| "getProp _ k = JUndefined"

definition optProp :: "json \<Rightarrow> string \<Rightarrow> json" where
  "optProp x k = (if x = JNull \<or> x = JUndefined then JUndefined else getProp x k)"

fun truthy :: "json \<Rightarrow> bool" where
  "truthy JUndefined = False"
| "truthy JNull = False"
| "truthy (JBool b) = b"
| "truthy (JNum n) = (n \<noteq> 0)"
| "truthy (JStr s) = (s \<noteq> [])"
| "truthy (JArr xs) = True"
| "truthy (JObj kvs) = True"

text \<open>\<open>a || b\<close>, \<open>Array.isArray\<close>, \<open>typeof x === 'object'\<close>, and the elements of an array.\<close>

definition orElse :: "json \<Rightarrow> json \<Rightarrow> json" where
  "orElse a b = (if truthy a then a else b)"

fun isArray :: "json \<Rightarrow> bool" where
  "isArray (JArr xs) = True"
| "isArray _ = False"

fun typeofObject :: "json \<Rightarrow> bool" where
  "typeofObject JNull = True"
| "typeofObject (JArr xs) = True"
| "typeofObject (JObj kvs) = True"
| "typeofObject _ = False"

fun elems :: "json \<Rightarrow> json list" where
  "elems (JArr xs) = xs"
| "elems _ = []"

text \<open>
  The block made from a single transaction held by \<open>event\<close>, and the block made from a
  nested contract log. \<open>dateNow\<close> is the value of \<open>Date.now()\<close>.
\<close>

definition defaultBlockInfo :: json where
  "defaultBlockInfo = JObj [(''index'', JNum 0), (''hash'', JStr [])]"

definition singleTransactionBlock :: "real \<Rightarrow> json \<Rightarrow> json" where
  "singleTransactionBlock dateNow event =
     (let tx = orElse (getProp event ''transaction'') event;
          blockInfo = orElse (orElse (getProp event ''block_identifier'') (getProp event ''block''))
                        defaultBlockInfo;
          timestamp = orElse (orElse (getProp event ''timestamp'') (getProp event ''block_timestamp''))
                        (JNum (dateNow / 1000))
      in JObj [(''block_identifier'',
                  if typeofObject blockInfo then blockInfo
                  else JObj [(''index'', blockInfo), (''hash'', JStr [])]),
               (''timestamp'', timestamp),
               (''transactions'', JArr [tx])])"

definition contractLogBlock :: "real \<Rightarrow> json \<Rightarrow> json" where
  "contractLogBlock dateNow contractLog =
     (let blockInfo = orElse (getProp contractLog ''block_identifier'') defaultBlockInfo;
          timestamp = orElse (getProp contractLog ''timestamp'') (JNum (dateNow / 1000))
      in JObj [(''block_identifier'', blockInfo),
               (''timestamp'', timestamp),
               (''transactions'',
                  JArr [JObj [(''transaction_identifier'',
                                 JObj [(''hash'', orElse (getProp contractLog ''tx_id'') (JStr []))]),
                              (''metadata'',
                                 JObj [(''receipt'',
                                   JObj [(''events'',
                                     JArr [JObj [(''type'', JStr ''contract_log''),
                                                 (''data'', contractLog)]])])])]])])"

text \<open>The chain of \<open>if\<close>s of \<open>processPayload\<close> that fills \<open>applyBlocks\<close>.\<close>

definition resolveApplyBlocks :: "real \<Rightarrow> json \<Rightarrow> json list" where
  "resolveApplyBlocks dateNow p =
     (if isArray (optProp p ''apply'') then elems (getProp p ''apply'')
      else if isArray (optProp (optProp p ''event'') ''apply'')
        then elems (getProp (getProp p ''event'') ''apply'')
      else if isArray (optProp (optProp p ''event'') ''blocks'')
        then elems (getProp (getProp p ''event'') ''blocks'')
      else if truthy (optProp p ''event'') \<and> typeofObject (getProp p ''event'') then
        (if truthy (orElse (orElse (getProp (getProp p ''event'') ''transaction_identifier'')
                              (getProp (getProp p ''event'') ''transaction''))
                      (getProp (getProp p ''event'') ''metadata''))
           then [singleTransactionBlock dateNow (getProp p ''event'')]
         else if truthy (getProp (getProp p ''event'') ''contract_log'')
           then [contractLogBlock dateNow (getProp (getProp p ''event'') ''contract_log'')]
         else [])
      else [])"

subsection \<open>The documented resolution order\<close>

text \<open>
  The rules as the specification lists them: each is a test of the payload and what the
  rule yields. The first rule whose test holds gives the blocks; when none holds (rule 6)
  there are no blocks. Rule 1 is a top-level list \<open>apply\<close>, rule 2 a list \<open>event.apply\<close>,
  rule 3 a list \<open>event.blocks\<close>, rule 4 an object \<open>event\<close> with direct transaction
  identifiers, rule 5 an object \<open>event\<close> with a nested contract log.
\<close>

definition eventIsObject :: "json \<Rightarrow> bool" where
  "eventIsObject p \<longleftrightarrow> truthy (optProp p ''event'') \<and> typeofObject (optProp p ''event'')"

definition shapeRules :: "real \<Rightarrow> ((json \<Rightarrow> bool) \<times> (json \<Rightarrow> json list)) list" where
  "shapeRules dateNow =
     [(\<lambda>p. isArray (optProp p ''apply''),
       \<lambda>p. elems (optProp p ''apply'')),
      (\<lambda>p. isArray (optProp (optProp p ''event'') ''apply''),
       \<lambda>p. elems (optProp (optProp p ''event'') ''apply'')),
      (\<lambda>p. isArray (optProp (optProp p ''event'') ''blocks''),
       \<lambda>p. elems (optProp (optProp p ''event'') ''blocks'')),
      (\<lambda>p. eventIsObject p \<and>
            (truthy (optProp (optProp p ''event'') ''transaction_identifier'') \<or>
             truthy (optProp (optProp p ''event'') ''transaction'') \<or>
             truthy (optProp (optProp p ''event'') ''metadata'')),
       \<lambda>p. [singleTransactionBlock dateNow (optProp p ''event'')]),
      (\<lambda>p. eventIsObject p \<and> truthy (optProp (optProp p ''event'') ''contract_log''),
       \<lambda>p. [contractLogBlock dateNow (optProp (optProp p ''event'') ''contract_log'')])]"

fun firstMatch :: "(('a \<Rightarrow> bool) \<times> ('a \<Rightarrow> 'b list)) list \<Rightarrow> 'a \<Rightarrow> 'b list" where
  "firstMatch [] p = []"
| "firstMatch ((applies, yield) # rules) p =
     (if applies p then yield p else firstMatch rules p)"

section \<open>Definitions used to state the properties\<close>

text \<open>Moving the offset of a step of the walk by the length of a prefix of the buffer.\<close>

fun shiftStep :: "nat \<Rightarrow> fieldStep \<Rightarrow> fieldStep" where
  "shiftStep n Break = Break"
| "shiftStep n Raise = Raise"
| "shiftStep n (Continue offset result) = Continue (n + offset) result"

text \<open>
  The tuple of the round-trip property: an unsigned integer \<open>field1\<close> of value 42 and an
  ASCII string \<open>field2\<close> of value \<open>pulse\<close>, and its encoding in hexadecimal: the marker
  0x0c, the declared length 2, then the two fields.
\<close>

definition field1 :: encField where
  "field1 = \<lparr>fkey = [0x66, 0x69, 0x65, 0x6c, 0x64, 0x31], ftag = 0x01,
             fpayload = [0, 0, 0, 0, 0, 0, 0, 0, 0, 0, 0, 0, 0, 0, 0, 0x2a]\<rparr>"

definition field2 :: encField where
  "field2 = \<lparr>fkey = [0x66, 0x69, 0x65, 0x6c, 0x64, 0x32], ftag = 0x06,
             fpayload = [0x70, 0x75, 0x6c, 0x73, 0x65]\<rparr>"

definition tupleHex :: string where
  "tupleHex =
     ''0c000200066669656c6431010000000000000000000000000000002a00066669656c643206000570756c7365''"

text \<open>
  Bytes at which no field starts: a one-byte key \<open>x\<close> followed by the unknown tag 0x0a,
  and a key length of six with two bytes left.
\<close>

definition unknownTagTail :: "byte list" where
  "unknownTagTail = [0x00, 0x01, 0x78, 0x0a, 0x01, 0x02, 0x03]"

definition truncatedTail :: "byte list" where
  "truncatedTail = [0x00, 0x06, 0x66, 0x69]"

text \<open>The thresholds of the tier label, and what a run of updates keeps true of a user.\<close>

definition tierFor :: "int \<Rightarrow> string" where
  "tierFor pts =
     (if pts \<ge> 5000 then ''platinum''
      else if pts \<ge> 1000 then ''gold''
      else if pts \<ge> 500 then ''silver''
      else if pts \<ge> 100 then ''bronze''
      else ''none'')"

definition tierInvariant :: "WebhookHandler \<Rightarrow> string \<Rightarrow> bool" where
  "tierInvariant h usr =
     (case leaderboard h usr of
        None \<Rightarrow> True
      | Some e \<Rightarrow> 0 \<le> totalPoints e \<and> tier e = tierFor (totalPoints e))"

text \<open>An update that does not take points from the user \<open>u\<close>.\<close>

definition gains :: "string \<Rightarrow> int \<times> string \<times> int \<times> int \<times> int \<Rightarrow> bool" where
  "gains u up = (case up of (now, usr, pts, pulses, streak) \<Rightarrow> usr = u \<longrightarrow> 0 \<le> pts)"

text \<open>
  The listeners that \<open>emit\<close> calls: those before the first that throws, and that one.
\<close>

definition invoked :: "Subscriber list \<Rightarrow> emitted \<Rightarrow> Subscriber list" where
  "invoked ss x =
     takeWhile (\<lambda>s. \<not> throws s x) ss @ take 1 (dropWhile (\<lambda>s. \<not> throws s x) ss)"

definition alwaysThrows :: "nat \<Rightarrow> Subscriber" where
  "alwaysThrows n = \<lparr>sub_id = n, throws = (\<lambda>x. True)\<rparr>"

definition neverThrows :: "nat \<Rightarrow> Subscriber" where
  "neverThrows n = \<lparr>sub_id = n, throws = (\<lambda>x. False)\<rparr>"

text \<open>Sample events and a sample run of updates.\<close>

definition samplePulse :: PulseEvent where
  "samplePulse =
     \<lparr>pulse_user = ''alice'', pulse_points = 10, pulse_streak = 1, pulse_fee = 3000,
      pulse_total_pulses = 1\<rparr>"


definition sampleReward :: RewardEvent where
  "sampleReward =
     \<lparr>reward_user = ''alice'', reward_id = 1, points_spent = 40, stx_value = 2, new_tier = ''silver''\<rparr>"

definition accumulate :: "(int \<times> string \<times> int \<times> int \<times> int) list" where
  "accumulate = [(1, ''alice'', 99, 1, 1), (2, ''alice'', 1, 0, 0)]"



definition noJson :: "jstring \<Rightarrow> unit option" where
  "noJson text = None"

definition bothLists :: json where
  "bothLists =
     JObj [(''apply'', JArr [JStr ''top'']),
           (''event'', JObj [(''apply'', JArr [JStr ''nested''])])]"

section \<open>The tuple walk\<close>

text \<open>
  Reading behind a prefix of the buffer is reading without it, at the offset moved back.
\<close>

lemma readUInt16BE_Cons:
  "0 < off \<Longrightarrow> readUInt16BE (x # xs) off = readUInt16BE xs (off - 1)"
  by (auto simp: readUInt16BE_def nth_Cons')

lemma readBigUInt64BE_Cons:
  "0 < off \<Longrightarrow> readBigUInt64BE (x # xs) off = readBigUInt64BE xs (off - 1)"
  by (cases off) (auto simp: readBigUInt64BE_def)

lemma bufferSlice_Cons:
  "0 < a \<Longrightarrow> bufferSlice (x # xs) a b = bufferSlice xs (a - 1) (b - 1)"
  by (cases a) (auto simp: bufferSlice_def)

lemma tupleField_Cons:
  "tupleField (x # xs) (Suc n) result = shiftStep 1 (tupleField xs n result)"
  unfolding tupleField_def
  by (simp add: readUInt16BE_Cons readBigUInt64BE_Cons bufferSlice_Cons
      Let_def split: option.splits)

lemma shiftStep_shiftStep: "shiftStep a (shiftStep b s) = shiftStep (a + b) s"
  by (cases s) simp_all

lemma shiftStep_0: "shiftStep 0 s = s"
  by (cases s) simp_all

lemma tupleField_append:
  "tupleField (pre @ xs) (length pre + n) result = shiftStep (length pre) (tupleField xs n result)"
  by (induction pre) (simp_all add: tupleField_Cons shiftStep_shiftStep shiftStep_0)

lemma u16_roundtrip: "n < 65536 \<Longrightarrow> unat (of_nat (n div 256) :: byte) * 256 + unat (of_nat (n mod 256) :: byte) = n"
  by (simp add: unat_of_nat)

lemma tupleField_never_raises: "tupleField buffer offset result \<noteq> Raise"
  by (simp add: tupleField_def readUInt16BE_def readBigUInt64BE_def Let_def)

lemma tupleWalk_returns: "\<exists>r. tupleWalk buffer offset result = Some r"
proof (induction buffer offset result rule: tupleWalk.induct)
  case (1 buffer offset result)
  show ?case
  proof (cases "tupleField buffer offset result")
    case Break
    then show ?thesis by (simp add: tupleWalk.simps [of buffer offset result])
  next
    case Raise
    then show ?thesis by (simp add: tupleField_never_raises)
  next
    case (Continue offset' result')
    with "1.IH" show ?thesis
      by (simp add: tupleWalk.simps [of buffer offset result])
  qed
qed


lemma length_u16be [simp]: "length (u16be n) = 2"
  by (simp add: u16be_def)

lemma readUInt16BE_at:
  "off = length pre \<Longrightarrow> n < 65536 \<Longrightarrow> readUInt16BE (pre @ u16be n @ ys) off = Some n"
  by (simp add: readUInt16BE_def u16be_def unat_of_nat nth_append)

lemma readBigUInt64BE_at:
  "off = length pre \<Longrightarrow> 8 \<le> length ys \<Longrightarrow>
     readBigUInt64BE (pre @ ys) off = Some (foldl (\<lambda>acc b. acc * 256 + unat b) 0 (take 8 ys))"
  by (simp add: readBigUInt64BE_def)

lemma bufferSlice_at:
  "s = length pre \<Longrightarrow> e = length pre + length ys \<Longrightarrow>
     bufferSlice (pre @ ys @ zs) s e = ys"
  by (simp add: bufferSlice_def)

lemma nth_at: "off = length pre \<Longrightarrow> (pre @ x # zs) ! off = x"
  by simp

lemma wfField_cases:
  "wfField f \<Longrightarrow>
     ((ftag f = 0x00 \<or> ftag f = 0x01) \<and> length (fpayload f) = 16) \<or>
     ((ftag f = 0x06 \<or> ftag f = 0x07) \<and> length (fpayload f) < 65536) \<or>
     (ftag f = 0x09 \<and> length (fpayload f) = 21)"
  unfolding wfField_def by (simp split: if_splits)

lemma tupleField_wf0:
  assumes wf: "wfField f"
  shows "tupleField (encodeField f @ rest) 0 result =
           Continue (length (encodeField f))
             (setProp result (toStringUtf8 (fkey f)) (decodedValue f))"
proof -
  let ?k = "fkey f" and ?p = "fpayload f" and ?tag = "ftag f"
  define buf where "buf = encodeField f @ rest"
  have klen: "length ?k < 65536" using wf by (simp add: wfField_def)
  have B: "readUInt16BE buf 0 = Some (length ?k)"
    unfolding buf_def encodeField_def
    using readUInt16BE_at [of 0 "[]" "length ?k"] klen by simp
  have C: "bufferSlice buf (0 + 2) (0 + 2 + length ?k) = ?k"
    unfolding buf_def encodeField_def
    using bufferSlice_at [of "0 + 2" "u16be (length ?k)" "0 + 2 + length ?k" ?k] by simp
  have D: "buf ! (0 + 2 + length ?k) = ?tag"
    unfolding buf_def encodeField_def
    using nth_at [of "0 + 2 + length ?k" "u16be (length ?k) @ ?k" ?tag] by simp
  consider (int) "?tag = 0x00 \<or> ?tag = 0x01" "length ?p = 16"
    | (str) "?tag = 0x06 \<or> ?tag = 0x07" "length ?p < 65536"
    | (principal) "?tag = 0x09" "length ?p = 21"
    using wfField_cases [OF wf] by blast
  then show ?thesis
  proof cases
    case int
    have enc: "buf = (u16be (length ?k) @ ?k @ [?tag]) @ ?p @ rest"
      using int by (auto simp: buf_def encodeField_def)
    have L: "length buf = 0 + 2 + length ?k + 1 + 16 + length rest"
      using int by (simp add: enc)
    have E: "readBigUInt64BE buf (0 + 2 + length ?k + 1) =
               Some (foldl (\<lambda>acc b. acc * 256 + unat b) 0 (take 8 ?p))"
      unfolding enc using int
      by (subst readBigUInt64BE_at [of _ _ "?p @ rest"]) simp_all
    have V: "decodedValue f = decimal (foldl (\<lambda>acc b. acc * 256 + unat b) 0 (take 8 ?p))"
      using int by (auto simp: decodedValue_def)
    have N: "length (encodeField f) = 0 + 2 + length ?k + 1 + 16"
      using L by (simp add: buf_def)
    show ?thesis
      unfolding buf_def [symmetric] V N
      using B C D E L int by (auto simp: tupleField_def Let_def)
  next
    case str
    have enc: "buf = (u16be (length ?k) @ ?k @ [?tag]) @ u16be (length ?p) @ ?p @ rest"
      using str by (auto simp: buf_def encodeField_def)
    have L: "length buf = 0 + 2 + length ?k + 1 + 2 + length ?p + length rest"
      by (simp add: enc)
    have E: "readUInt16BE buf (0 + 2 + length ?k + 1) = Some (length ?p)"
      unfolding enc using str by (intro readUInt16BE_at) simp_all
    have enc': "buf = (u16be (length ?k) @ ?k @ [?tag] @ u16be (length ?p)) @ ?p @ rest"
      by (simp add: enc)
    have S: "bufferSlice buf (0 + 2 + length ?k + 1 + 2) (0 + 2 + length ?k + 1 + 2 + length ?p) = ?p"
      unfolding enc' by (intro bufferSlice_at) simp_all
    have V: "decodedValue f = toStringUtf8 ?p"
      using str by (auto simp: decodedValue_def)
    have N: "length (encodeField f) = 0 + 2 + length ?k + 1 + 2 + length ?p"
      using L by (simp add: buf_def)
    show ?thesis
      unfolding buf_def [symmetric] V N
      using B C D E S L str by (auto simp: tupleField_def Let_def)
  next
    case principal
    have enc: "buf = (u16be (length ?k) @ ?k @ [?tag]) @ ?p @ rest"
      using principal by (auto simp: buf_def encodeField_def)
    have L: "length buf = 0 + 2 + length ?k + 1 + 21 + length rest"
      using principal by (simp add: enc)
    have S: "bufferSlice buf (0 + 2 + length ?k + 1) (0 + 2 + length ?k + 1 + 21) = ?p"
      unfolding enc using principal by (intro bufferSlice_at) simp_all
    have V: "decodedValue f = jstr ''0x'' @ toStringHex ?p"
      using principal by (auto simp: decodedValue_def)
    have N: "length (encodeField f) = 0 + 2 + length ?k + 1 + 21"
      using L by (simp add: buf_def)
    show ?thesis
      unfolding buf_def [symmetric] V N
      using B C D S L principal by (auto simp: tupleField_def Let_def)
  qed
qed


lemma tupleField_malformed0:
  assumes "malformedField t"
  shows "tupleField t 0 result = Break"
proof (cases "length t < 2")
  case True
  then show ?thesis by (simp add: tupleField_def)
next
  case False
  define keyLen where "keyLen = unat (t ! 0) * 256 + unat (t ! 1)"
  have R: "readUInt16BE t 0 = Some keyLen"
    using False by (simp add: readUInt16BE_def keyLen_def)
  show ?thesis
  proof (cases "length t < 2 + keyLen + 1")
    case True
    then show ?thesis using False R by (auto simp: tupleField_def Let_def)
  next
    case long: False
    define tag where "tag = t ! (2 + keyLen)"
    define v where "v = drop (2 + keyLen + 1) t"
    have lv: "length v = length t - (0 + 2 + keyLen + 1)" by (simp add: v_def)
    have M: "if tag = 0x00 \<or> tag = 0x01 then length v < 16
          else if tag = 0x06 \<or> tag = 0x07 then
            length v < 2 \<or> length v < 2 + (unat (v ! 0) * 256 + unat (v ! 1))
          else if tag = 0x09 then length v < 21
          else True"
      using assms False long
      by (auto simp: malformedField_def Let_def keyLen_def tag_def v_def split: if_splits)
    have T: "t ! (0 + 2 + keyLen) = tag" by (simp add: tag_def)
    have S: "\<not> length v < 2 \<Longrightarrow>
             readUInt16BE t (0 + 2 + keyLen + 1) = Some (unat (v ! 0) * 256 + unat (v ! 1))"
      using long by (simp add: readUInt16BE_def v_def)
    show ?thesis
    proof (cases "tag = 0x00 \<or> tag = 0x01")
      case True
      with M have "length v < 16" by simp
      then show ?thesis using False long R T True lv
        by (auto simp: tupleField_def Let_def)
    next
      case notint: False
      show ?thesis
      proof (cases "tag = 0x06 \<or> tag = 0x07")
        case True
        with M notint have m: "length v < 2 \<or> length v < 2 + (unat (v ! 0) * 256 + unat (v ! 1))"
          by simp
        show ?thesis
        proof (cases "length v < 2")
          case True
          then show ?thesis using False long R T notint \<open>tag = 0x06 \<or> tag = 0x07\<close> lv
            by (auto simp: tupleField_def Let_def)
        next
          case False
          with m have "length v < 2 + (unat (v ! 0) * 256 + unat (v ! 1))" by simp
          then show ?thesis
            using \<open>\<not> length t < 2\<close> long R T notint \<open>tag = 0x06 \<or> tag = 0x07\<close> lv S [OF False] False
            by (auto simp: tupleField_def Let_def)
        qed
      next
        case notstr: False
        show ?thesis
        proof (cases "tag = 0x09")
          case True
          with M notint notstr have "length v < 21" by simp
          then show ?thesis using False long R T notint notstr True lv
            by (auto simp: tupleField_def Let_def)
        next
          case False
          then show ?thesis using \<open>\<not> length t < 2\<close> long R T notint notstr
            by (auto simp: tupleField_def Let_def)
        qed
      qed
    qed
  qed
qed


lemma length_encodeField: "wfField f \<Longrightarrow> 2 \<le> length (encodeField f)"
  by (simp add: encodeField_def)

lemma tupleWalk_fields:
  assumes "list_all wfField fs" and "malformedField t"
  shows "tupleWalk (pre @ concat (map encodeField fs) @ t) (length pre) result =
           Some (foldl assignField result fs)"
  using assms(1)
proof (induction fs arbitrary: pre result)
  case Nil
  have "tupleField (pre @ t) (length pre + 0) result = Break"
    using tupleField_malformed0 [OF assms(2)] by (simp only: tupleField_append shiftStep.simps)
  then show ?case
    by (simp add: tupleWalk.simps [of "pre @ t" "length pre" result])
next
  case (Cons f fs)
  let ?rest = "concat (map encodeField fs) @ t"
  have wf: "wfField f" and wfs: "list_all wfField fs" using Cons.prems by simp_all
  have step: "tupleField (pre @ encodeField f @ ?rest) (length pre + 0) result =
                Continue (length pre + length (encodeField f)) (assignField result f)"
    using tupleField_wf0 [OF wf, of ?rest result]
    by (simp only: tupleField_append shiftStep.simps assignField_def)
  have len: "length pre + 1 < length (pre @ encodeField f @ ?rest)"
    using length_encodeField [OF wf] by simp
  have "tupleWalk (pre @ encodeField f @ ?rest) (length pre) result =
          tupleWalk ((pre @ encodeField f) @ ?rest) (length (pre @ encodeField f)) (assignField result f)"
    using step len
    by (simp add: tupleWalk.simps [of "pre @ encodeField f @ ?rest" "length pre" result])
  also have "\<dots> = Some (foldl assignField (assignField result f) fs)"
    by (rule Cons.IH [OF wfs])
  finally show ?case by simp
qed

text \<open>
  C7. A buffer that begins with the tuple marker, holds any number of complete fields and
  then bytes at which no complete field starts (an unrecognised value-type tag, or a key
  length, key, tag or value that runs past the end of the buffer): the walk ends at those
  bytes without an exception, and the parser returns the object built by assigning, in
  order, every field decoded before them.
\<close>

theorem parseClarityTuple_partial:
  assumes "list_all wfField fs" and "malformedField t"
  shows "tupleWalk (0x0c # l1 # l2 # concat (map encodeField fs) @ t) 3 Map.empty =
           Some (foldl assignField Map.empty fs) \<and>
         parseClarityTuple (0x0c # l1 # l2 # concat (map encodeField fs) @ t) =
           foldl assignField Map.empty fs"
proof -
  have "tupleWalk ([0x0c, l1, l2] @ concat (map encodeField fs) @ t) (length [0x0c, l1, l2])
          Map.empty = Some (foldl assignField Map.empty fs)"
    using assms by (rule tupleWalk_fields)
  then have walk: "tupleWalk (0x0c # l1 # l2 # concat (map encodeField fs) @ t) 3 Map.empty =
                     Some (foldl assignField Map.empty fs)"
    by (simp add: numeral_3_eq_3)
  then show ?thesis by (simp add: parseClarityTuple_def)
qed

lemma field1_facts:
  "wfField field1"
  "encodeField field1 = bufferFromHex ''00066669656c6431010000000000000000000000000000002a''"
  "assignField obj field1 = obj(jstr ''field1'' \<mapsto> jstr ''0'')"
  by (simp_all add: wfField_def field1_def encodeField_def u16be_def unhex_def assignField_def
      setProp_def decodedValue_def toStringUtf8_def decimal.simps jstr_def)

lemma field2_facts:
  "wfField field2"
  "encodeField field2 = bufferFromHex ''00066669656c643206000570756c7365''"
  "assignField obj field2 = obj(jstr ''field2'' \<mapsto> jstr ''pulse'')"
  by (simp_all add: wfField_def field2_def encodeField_def u16be_def unhex_def assignField_def
      setProp_def decodedValue_def toStringUtf8_def jstr_def)

lemma malformed_examples:
  "malformedField []"
  "malformedField unknownTagTail"
  "malformedField truncatedTail"
  by (simp_all add: malformedField_def unknownTagTail_def truncatedTail_def)

theorem parseClarityTuple_partial_witness:
  "list_all wfField [field1] \<and> malformedField unknownTagTail \<and>
   parseClarityTuple (0x0c # 0 # 2 # concat (map encodeField [field1]) @ unknownTagTail) =
     [jstr ''field1'' \<mapsto> jstr ''0'']"
  using parseClarityTuple_partial [of "[field1]" unknownTagTail 0 2]
  by (simp add: field1_facts(1,3) malformed_examples(2))

text \<open>
  An unsigned integer below \<open>2 ^ 64\<close> has eight zero bytes in front of its low eight
  bytes, and the string stored for it is \<open>0\<close> whatever the low bytes are.
\<close>

lemma decodedValue_high_bits:
  "decodedValue \<lparr>fkey = k, ftag = 0x01, fpayload = replicate 8 0 @ low\<rparr> = jstr ''0''"
  by (simp add: decodedValue_def decimal.simps jstr_def eval_nat_numeral)

text \<open>
  C1. The tuple with the unsigned integer \<open>field1 = 42\<close> and the ASCII string
  \<open>field2 = pulse\<close>, encoded in the documented layout, begins with the marker byte and is
  decoded to \<open>{field1: "0", field2: "pulse"}\<close>: the decoder reads the first eight of the
  sixteen bytes of the integer, its high 64 bits, and the value 42 is lost.
\<close>

theorem parseClarityTuple_uint42:
  "bufferFromHex (strip0x tupleHex) = 0x0c # 0 # 2 # encodeField field1 @ encodeField field2 \<and>
   parseClarityTuple (bufferFromHex (strip0x tupleHex)) =
     [jstr ''field1'' \<mapsto> jstr ''0'', jstr ''field2'' \<mapsto> jstr ''pulse'']"
proof -
  have buf: "bufferFromHex (strip0x tupleHex) =
          0x0c # 0 # 2 # concat (map encodeField [field1, field2]) @ []"
    by (simp add: tupleHex_def strip0x_def field1_facts(2) field2_facts(2) unhex_def)
  have "parseClarityTuple (0x0c # 0 # 2 # concat (map encodeField [field1, field2]) @ []) =
          foldl assignField Map.empty [field1, field2]"
    using tupleWalk_fields [of "[field1, field2]" "[]" "[0x0c, 0, 2]" Map.empty]
    by (simp add: parseClarityTuple_def field1_facts(1) field2_facts(1) malformed_examples(1)
        numeral_3_eq_3)
  then show ?thesis
    by (simp only: buf) (simp add: field1_facts(3) field2_facts(3))
qed

text \<open>
  C6. The walk over the bytes of any input string ends with an object, never with an
  exception, so the \<open>catch\<close> of the parser is not reached; and when the text of the bytes
  is not JSON and the bytes do not begin with the marker 0x0c, the decoder returns
  \<open>{raw: hexValue}\<close> with the string as it was given.
\<close>

theorem decodeClarityValue_fallback:
  "(\<exists>obj. tupleWalk (bufferFromHex (strip0x hexValue)) 3 Map.empty = Some obj) \<and>
   (jsonParse (toStringUtf8 (bufferFromHex (strip0x hexValue))) = None \<and>
    \<not> (length (bufferFromHex (strip0x hexValue)) > 0 \<and>
       bufferFromHex (strip0x hexValue) ! 0 = 0x0c) \<longrightarrow>
    decodeClarityValue jsonParse hexValue = Obj [jstr ''raw'' \<mapsto> jstr hexValue])"
  using tupleWalk_returns [of "bufferFromHex (strip0x hexValue)" 3 Map.empty]
  by (simp add: decodeClarityValue_def Let_def)

theorem decodeClarityValue_fallback_witness:
  "noJson (toStringUtf8 (bufferFromHex (strip0x ''0xdeadbeef''))) = None \<and>
   \<not> (length (bufferFromHex (strip0x ''0xdeadbeef'')) > 0 \<and>
      bufferFromHex (strip0x ''0xdeadbeef'') ! 0 = 0x0c) \<and>
   decodeClarityValue noJson ''0xdeadbeef'' = Obj [jstr ''raw'' \<mapsto> jstr ''0xdeadbeef'']"
  using decodeClarityValue_fallback [of "''0xdeadbeef''" noJson]
  by (simp add: noJson_def strip0x_def unhex_def)

section \<open>The emitter and the store\<close>

lemma callListeners_calls:
  "snd (callListeners ss channel x calls) =
     calls @ map (\<lambda>s. (sub_id s, channel, x)) (invoked ss x)"
  by (induction ss arbitrary: calls) (simp_all add: invoked_def)

lemma callListeners_signal:
  "fst (callListeners ss channel x calls) = (if list_ex (\<lambda>s. throws s x) ss then Raised else Ok)"
  by (induction ss arbitrary: calls) simp_all

lemma emit_store:
  "activities (snd (emit channel x h)) = activities h"
  "leaderboard (snd (emit channel x h)) = leaderboard h"
  "totalFees (snd (emit channel x h)) = totalFees h"
  "totalTransactions (snd (emit channel x h)) = totalTransactions h"
  "listeners (snd (emit channel x h)) = listeners h"
  by (simp_all add: emit_def)

lemma emit_delivered:
  "delivered (snd (emit channel x h)) =
     delivered h @ map (\<lambda>s. (sub_id s, channel, x)) (invoked (listeners h channel) x)"
  by (auto simp: emit_def callListeners_calls invoked_def)

lemma updateLeaderboard_store:
  "activities (snd (updateLeaderboard now usr pts pulses streak h)) = activities h"
  "totalFees (snd (updateLeaderboard now usr pts pulses streak h)) = totalFees h"
  "totalTransactions (snd (updateLeaderboard now usr pts pulses streak h)) = totalTransactions h"
  "listeners (snd (updateLeaderboard now usr pts pulses streak h)) = listeners h"
  by (simp_all add: updateLeaderboard_def Let_def emit_store)

lemma handlePulseEvent_store:
  "activities (snd (handlePulseEvent now e tx height ts h)) =
     activities h @ [pulseActivity e tx height ts]"
  "totalFees (snd (handlePulseEvent now e tx height ts h)) = totalFees h + pulse_fee e"
  "totalTransactions (snd (handlePulseEvent now e tx height ts h)) = totalTransactions h"
  by (simp_all add: handlePulseEvent_def Let_def emit_store updateLeaderboard_store)

lemma handleBoostEvent_store:
  "activities (snd (handleBoostEvent now e tx height ts h)) =
     activities h @ [boostActivity e tx height ts]"
  "totalFees (snd (handleBoostEvent now e tx height ts h)) = totalFees h + boost_fee e"
  "totalTransactions (snd (handleBoostEvent now e tx height ts h)) = totalTransactions h"
  by (simp_all add: handleBoostEvent_def Let_def emit_store updateLeaderboard_store)

lemma handleCheckinEvent_store:
  "activities (snd (handleCheckinEvent now e tx height ts h)) =
     activities h @ [checkinActivity e tx height ts]"
  "totalFees (snd (handleCheckinEvent now e tx height ts h)) = totalFees h"
  "totalTransactions (snd (handleCheckinEvent now e tx height ts h)) = totalTransactions h"
  by (simp_all add: handleCheckinEvent_def Let_def emit_store updateLeaderboard_store)

lemma handleMegaPulseEvent_store:
  "activities (snd (handleMegaPulseEvent now e tx height ts h)) =
     activities h @ [megaActivity e tx height ts]"
  "totalFees (snd (handleMegaPulseEvent now e tx height ts h)) = totalFees h + mega_fee e"
  "totalTransactions (snd (handleMegaPulseEvent now e tx height ts h)) = totalTransactions h"
  by (simp_all add: handleMegaPulseEvent_def Let_def emit_store updateLeaderboard_store)

lemma handleChallengeEvent_store:
  "activities (snd (handleChallengeEvent now e tx height ts h)) =
     activities h @ [challengeActivity e tx height ts]"
  "totalFees (snd (handleChallengeEvent now e tx height ts h)) = totalFees h + challenge_fee e"
  "totalTransactions (snd (handleChallengeEvent now e tx height ts h)) = totalTransactions h"
  by (simp_all add: handleChallengeEvent_def Let_def emit_store updateLeaderboard_store)

lemma handleRewardEvent_store:
  "activities (snd (handleRewardEvent e tx height ts h)) =
     activities h @ [rewardActivity e tx height ts]"
  "totalFees (snd (handleRewardEvent e tx height ts h)) = totalFees h"
  "totalTransactions (snd (handleRewardEvent e tx height ts h)) = totalTransactions h"
  by (simp_all add: handleRewardEvent_def Let_def emit_store split: option.splits)

lemma handleRewardEvent_leaderboard:
  "leaderboard (snd (handleRewardEvent e tx height ts h)) =
     (case leaderboard h (reward_user e) of
        None \<Rightarrow> leaderboard h
      | Some entry \<Rightarrow> (leaderboard h)(reward_user e \<mapsto> entry\<lparr>tier := new_tier e\<rparr>))"
  by (simp add: handleRewardEvent_def Let_def emit_store split: option.splits)

lemma handleTierEvent_store:
  "activities (snd (handleTierEvent e tx height ts h)) =
     activities h @ [tierActivity e tx height ts]"
  "totalFees (snd (handleTierEvent e tx height ts h)) = totalFees h"
  "totalTransactions (snd (handleTierEvent e tx height ts h)) = totalTransactions h"
  by (simp_all add: handleTierEvent_def Let_def emit_store split: option.splits)

lemma processNFTEvent_store:
  "activities (snd (processNFTEvent d tx height ts h)) = activities h @ [nftActivity d tx height ts]"
  "totalFees (snd (processNFTEvent d tx height ts h)) = totalFees h"
  "totalTransactions (snd (processNFTEvent d tx height ts h)) = totalTransactions h"
  by (simp_all add: processNFTEvent_def Let_def emit_store)

lemma processSTXTransfer_store:
  "activities (snd (processSTXTransfer d tx height ts h)) = activities h @ [stxActivity d tx height ts]"
  "totalFees (snd (processSTXTransfer d tx height ts h)) = totalFees h"
  "totalTransactions (snd (processSTXTransfer d tx height ts h)) = totalTransactions h"
  by (simp_all add: processSTXTransfer_def Let_def emit_store)

lemma foldl_rollbackBlock:
  "activities (foldl rollbackBlock h blocks) =
     filter (\<lambda>a. blockHeight a \<notin> set (map (\<lambda>b. index (block_identifier b)) blocks)) (activities h) \<and>
   leaderboard (foldl rollbackBlock h blocks) = leaderboard h \<and>
   totalFees (foldl rollbackBlock h blocks) = totalFees h \<and>
   totalTransactions (foldl rollbackBlock h blocks) = totalTransactions h"
proof (induction blocks arbitrary: h)
  case Nil
  show ?case by simp
next
  case (Cons b blocks)
  have "filter (\<lambda>a. blockHeight a \<notin> set (map (\<lambda>b. index (block_identifier b)) blocks))
          (filter (\<lambda>a. blockHeight a \<noteq> index (block_identifier b)) (activities h)) =
        filter (\<lambda>a. blockHeight a \<notin> set (map (\<lambda>b. index (block_identifier b)) (b # blocks)))
          (activities h)"
    by (auto intro: filter_cong)
  then show ?case using Cons.IH [of "rollbackBlock h b"]
    by (simp add: rollbackBlock_def)
qed

text \<open>
  C3. A rollback keeps exactly the records whose block height is none of the indices of
  the rolled-back blocks, in their order, and changes neither the leaderboard nor the two
  counters.
\<close>

theorem handleRollback_removes_by_height:
  "activities (snd (handleRollback (Some blocks) h)) =
     filter (\<lambda>a. blockHeight a \<notin> set (map (\<lambda>b. index (block_identifier b)) blocks)) (activities h) \<and>
   leaderboard (snd (handleRollback (Some blocks) h)) = leaderboard h \<and>
   totalFees (snd (handleRollback (Some blocks) h)) = totalFees h \<and>
   totalTransactions (snd (handleRollback (Some blocks) h)) = totalTransactions h"
  using foldl_rollbackBlock [of h blocks]
  by (simp add: handleRollback_def emit_store)

text \<open>
  C4. A reward-claimed event appends the record with the points spent negated and fee 0;
  in the leaderboard only the tier label of an entry the user already has is overwritten
  with the new tier (a user without an entry gets none); the total of points of every
  user, the total of fees and the count of transactions stay as they were.
\<close>

theorem reward_claimed_ledger_only:
  "activities (processPrintEvent now (RewardClaimed e) tx height ts h) =
     activities h @ [rewardActivity e tx height ts] \<and>
   user (rewardActivity e tx height ts) = reward_user e \<and>
   points (rewardActivity e tx height ts) = - points_spent e \<and>
   fee (rewardActivity e tx height ts) = 0 \<and>
   leaderboard (processPrintEvent now (RewardClaimed e) tx height ts h) =
     (case leaderboard h (reward_user e) of
        None \<Rightarrow> leaderboard h
      | Some entry \<Rightarrow> (leaderboard h)(reward_user e \<mapsto> entry\<lparr>tier := new_tier e\<rparr>)) \<and>
   map_option totalPoints (leaderboard (processPrintEvent now (RewardClaimed e) tx height ts h) u) =
     map_option totalPoints (leaderboard h u) \<and>
   totalFees (processPrintEvent now (RewardClaimed e) tx height ts h) = totalFees h \<and>
   totalTransactions (processPrintEvent now (RewardClaimed e) tx height ts h) = totalTransactions h"
  by (simp add: processPrintEvent_def handleRewardEvent_store handleRewardEvent_leaderboard
      rewardActivity_def split: option.splits)

text \<open>
  C10. With limit 0 the query returns the whole log, most recent first; with a positive
  limit \<open>n\<close> it returns the last \<open>min n (length log)\<close> records, most recent first.
\<close>

theorem getActivities_limit:
  "getActivities (Some 0) h = rev (activities h) \<and>
   (0 < n \<longrightarrow>
      getActivities (Some n) h =
        rev (drop (length (activities h) - min (nat n) (length (activities h))) (activities h)) \<and>
      getActivities (Some n) h = take (min (nat n) (length (activities h))) (rev (activities h)))"
  by (auto simp: getActivities_def arraySlice_def Let_def rev_drop max_def min_def nat_diff_distrib)

theorem getActivities_limit_witness:
  "(0::int) < 2 \<and>
   getActivities (Some 0) (snd (handlePulseEvent 0 samplePulse ''tx1'' 100 0 newHandler)) =
     [pulseActivity samplePulse ''tx1'' 100 0] \<and>
   getActivities (Some 2) (snd (handlePulseEvent 0 samplePulse ''tx1'' 100 0 newHandler)) =
     [pulseActivity samplePulse ''tx1'' 100 0]"
  using getActivities_limit [of "snd (handlePulseEvent 0 samplePulse ''tx1'' 100 0 newHandler)" 2]
  by (simp add: handlePulseEvent_store newHandler_def)

theorem handleRollback_removes_by_height_witness:
  "activities (snd (handleRollback (Some [\<lparr>block_identifier = \<lparr>index = 100, hash = ''h100''\<rparr>\<rparr>])
      (snd (handlePulseEvent 0 samplePulse ''tx2'' 101 0
        (snd (handlePulseEvent 0 samplePulse ''tx1'' 100 0 newHandler)))))) =
     [pulseActivity samplePulse ''tx2'' 101 0] \<and>
   map_option totalPoints
     (leaderboard (snd (handleRollback (Some [\<lparr>block_identifier = \<lparr>index = 100, hash = ''h100''\<rparr>\<rparr>])
        (snd (handlePulseEvent 0 samplePulse ''tx2'' 101 0
          (snd (handlePulseEvent 0 samplePulse ''tx1'' 100 0 newHandler)))))) ''alice'') = Some 20"
  using handleRollback_removes_by_height
    [of "[\<lparr>block_identifier = \<lparr>index = 100, hash = ''h100''\<rparr>\<rparr>]"
        "snd (handlePulseEvent 0 samplePulse ''tx2'' 101 0
          (snd (handlePulseEvent 0 samplePulse ''tx1'' 100 0 newHandler)))"]
  by (simp add: handlePulseEvent_store newHandler_def pulseActivity_def)
     (simp add: handlePulseEvent_def updateLeaderboard_def emit_def Let_def samplePulse_def
        pulseActivity_def)

lemma alice_after_pulse:
  "leaderboard (snd (handlePulseEvent 0 samplePulse ''tx1'' 100 0 newHandler)) ''alice'' =
     Some \<lparr>entry_user = ''alice'', totalPoints = 10, totalPulses = 1, currentStreak = 1,
           longestStreak = 1, tier = ''none'', lastActive = 0\<rparr>"
  by (simp add: handlePulseEvent_def updateLeaderboard_def emit_def Let_def samplePulse_def
      newHandler_def)

theorem reward_claimed_ledger_only_witness:
  "map_option totalPoints
     (leaderboard (processPrintEvent 0 (RewardClaimed sampleReward) ''tx2'' 101 0
        (snd (handlePulseEvent 0 samplePulse ''tx1'' 100 0 newHandler))) ''alice'') = Some 10 \<and>
   map_option tier
     (leaderboard (processPrintEvent 0 (RewardClaimed sampleReward) ''tx2'' 101 0
        (snd (handlePulseEvent 0 samplePulse ''tx1'' 100 0 newHandler))) ''alice'') = Some ''silver'' \<and>
   points (last (activities (processPrintEvent 0 (RewardClaimed sampleReward) ''tx2'' 101 0
        (snd (handlePulseEvent 0 samplePulse ''tx1'' 100 0 newHandler))))) = - 40"
  using reward_claimed_ledger_only
    [of 0 sampleReward "''tx2''" 101 0 "snd (handlePulseEvent 0 samplePulse ''tx1'' 100 0 newHandler)"
        "''alice''"]
    alice_after_pulse
  by (simp add: sampleReward_def)

section \<open>The payload and the counters\<close>

lemma processPrintEvent_totalTransactions:
  "totalTransactions (processPrintEvent now d tx height ts h) = totalTransactions h"
  by (cases d)
     (simp_all add: processPrintEvent_def handlePulseEvent_store handleBoostEvent_store
        handleCheckinEvent_store handleMegaPulseEvent_store handleChallengeEvent_store
        handleRewardEvent_store handleTierEvent_store)

lemma processEvents_totalTransactions:
  "totalTransactions (snd (processEvents now events tx height ts h)) = totalTransactions h"
proof (induction events arbitrary: h)
  case Nil
  show ?case by simp
next
  case (Cons event events)
  show ?case
    by (cases event)
       (simp_all add: Let_def Cons.IH processPrintEvent_totalTransactions processNFTEvent_store
          processSTXTransfer_store)
qed

lemma processTransactions_totalTransactions:
  "totalTransactions (snd (processTransactions now txs height ts h)) = totalTransactions h"
  by (induction txs arbitrary: h)
     (simp_all add: Let_def processTransaction_def processEvents_totalTransactions)

lemma processBlocks_totalTransactions:
  "totalTransactions (snd (processBlocks now blocks h)) = totalTransactions h"
  by (induction blocks arbitrary: h)
     (simp_all add: Let_def processTransactions_totalTransactions)

text \<open>
  A payload processed without an exception adds the number of transactions of its blocks
  to the count of transactions, whatever their events and fees are.
\<close>

lemma processPayload_totalTransactions:
  assumes "fst (processPayload now payload h) = Ok"
    and "safeInteger (totalTransactions h)"
    and "safeInteger (txCount (payload_apply payload))"
    and "safeInteger (totalTransactions h + txCount (payload_apply payload))"
  shows "totalTransactions (snd (processPayload now payload h)) =
           totalTransactions h + txCount (payload_apply payload)"
proof -
  have rb: "totalTransactions (snd (handleRollback (Some blocks) h)) = totalTransactions h"
    for blocks
    using foldl_rollbackBlock [of h blocks] by (simp add: handleRollback_def emit_store)
  show ?thesis
    using assms(1)
    by (auto simp: processPayload_def Let_def processBlocks_totalTransactions rb
        split: if_splits)
qed

text \<open>
  Within the safe range the handlers of pulse-sent, boost-activated, mega-pulse and
  challenge-completed add the fee of the event to the total of fees.
\<close>

lemma sibling_handlers_add_fee:
  "safeInteger (totalFees h) \<Longrightarrow> safeInteger (pulse_fee pe) \<Longrightarrow>
     safeInteger (totalFees h + pulse_fee pe) \<Longrightarrow>
     totalFees (snd (handlePulseEvent now pe tx height ts h)) = totalFees h + pulse_fee pe"
  "safeInteger (totalFees h) \<Longrightarrow> safeInteger (boost_fee be) \<Longrightarrow>
     safeInteger (totalFees h + boost_fee be) \<Longrightarrow>
     totalFees (snd (handleBoostEvent now be tx height ts h)) = totalFees h + boost_fee be"
  "safeInteger (totalFees h) \<Longrightarrow> safeInteger (mega_fee me) \<Longrightarrow>
     safeInteger (totalFees h + mega_fee me) \<Longrightarrow>
     totalFees (snd (handleMegaPulseEvent now me tx height ts h)) = totalFees h + mega_fee me"
  "safeInteger (totalFees h) \<Longrightarrow> safeInteger (challenge_fee ce) \<Longrightarrow>
     safeInteger (totalFees h + challenge_fee ce) \<Longrightarrow>
     totalFees (snd (handleChallengeEvent now ce tx height ts h)) = totalFees h + challenge_fee ce"
  by (simp_all add: handlePulseEvent_store handleBoostEvent_store handleMegaPulseEvent_store
      handleChallengeEvent_store)


section \<open>The tier thresholds\<close>

lemma updateLeaderboard_other:
  "u \<noteq> usr \<Longrightarrow> leaderboard (snd (updateLeaderboard now usr pts pulses streak h)) u = leaderboard h u"
  by (simp add: updateLeaderboard_def Let_def emit_store)

lemma updateLeaderboard_entry:
  "\<exists>e'. leaderboard (snd (updateLeaderboard now usr pts pulses streak h)) usr = Some e' \<and>
         totalPoints e' = (case leaderboard h usr of None \<Rightarrow> 0 | Some e \<Rightarrow> totalPoints e) + pts \<and>
         tier e' = (if 100 \<le> totalPoints e' then tierFor (totalPoints e')
                    else (case leaderboard h usr of None \<Rightarrow> ''none'' | Some e \<Rightarrow> tier e))"
  by (cases "leaderboard h usr")
     (simp_all add: updateLeaderboard_def Let_def emit_store tierFor_def)

lemma tierInvariant_update:
  assumes "tierInvariant h u" and "usr = u \<longrightarrow> 0 \<le> pts"
  shows "tierInvariant (snd (updateLeaderboard now usr pts pulses streak h)) u"
proof (cases "usr = u")
  case False
  then show ?thesis using assms(1) by (simp add: tierInvariant_def updateLeaderboard_other)
next
  case True
  obtain e' where
    lb: "leaderboard (snd (updateLeaderboard now u pts pulses streak h)) u = Some e'" and
    tp: "totalPoints e' = (case leaderboard h u of None \<Rightarrow> 0 | Some e \<Rightarrow> totalPoints e) + pts" and
    tr: "tier e' = (if 100 \<le> totalPoints e' then tierFor (totalPoints e')
                    else (case leaderboard h u of None \<Rightarrow> ''none'' | Some e \<Rightarrow> tier e))"
    using updateLeaderboard_entry by blast
  have nonneg: "0 \<le> pts" using True assms(2) by simp
  have old: "0 \<le> (case leaderboard h u of None \<Rightarrow> 0 | Some e \<Rightarrow> totalPoints e)"
    using assms(1) by (simp add: tierInvariant_def split: option.splits)
  have oldtier: "(case leaderboard h u of None \<Rightarrow> 0 | Some e \<Rightarrow> totalPoints e) < 100 \<Longrightarrow>
                 (case leaderboard h u of None \<Rightarrow> ''none'' | Some e \<Rightarrow> tier e) = ''none''"
    using assms(1) by (simp add: tierInvariant_def tierFor_def split: option.splits if_splits)
  have "0 \<le> totalPoints e'" using tp nonneg old by simp
  moreover have "tier e' = tierFor (totalPoints e')"
  proof (cases "100 \<le> totalPoints e'")
    case True
    then show ?thesis using tr by simp
  next
    case False
    then have "(case leaderboard h u of None \<Rightarrow> 0 | Some e \<Rightarrow> totalPoints e) < 100"
      using tp nonneg by simp
    then show ?thesis using tr False oldtier by (simp add: tierFor_def)
  qed
  ultimately show ?thesis using True lb by (simp add: tierInvariant_def)
qed

lemma tierInvariant_runUpdates:
  assumes "tierInvariant h u" and "list_all (gains u) ups"
  shows "tierInvariant (runUpdates ups h) u"
  using assms
proof (induction ups arbitrary: h)
  case Nil
  then show ?case by (simp add: runUpdates_def)
next
  case (Cons up ups)
  obtain now usr pts pulses streak where up: "up = (now, usr, pts, pulses, streak)"
    by (cases up) auto
  have "tierInvariant (snd (updateLeaderboard now usr pts pulses streak h)) u"
    using Cons.prems up by (intro tierInvariant_update) (simp_all add: gains_def)
  moreover have "list_all (gains u) ups"
    using Cons.prems by simp
  ultimately have "tierInvariant (runUpdates ups (snd (updateLeaderboard now usr pts pulses streak h))) u"
    by (rule Cons.IH)
  then show ?case by (simp add: runUpdates_def up)
qed

text \<open>
  C8. A user who has no entry yet and then only gains points through leaderboard updates
  has, after any run of updates, the tier \<open>none\<close> at a total of 99, \<open>bronze\<close> at 100,
  \<open>silver\<close> at 500, \<open>gold\<close> at 1000 and \<open>platinum\<close> at 5000.
\<close>

theorem tier_thresholds:
  assumes "leaderboard h u = None"
    and "list_all (gains u) ups"
    and "leaderboard (runUpdates ups h) u = Some e"
  shows "(totalPoints e = 99 \<longrightarrow> tier e = ''none'') \<and>
         (totalPoints e = 100 \<longrightarrow> tier e = ''bronze'') \<and>
         (totalPoints e = 500 \<longrightarrow> tier e = ''silver'') \<and>
         (totalPoints e = 1000 \<longrightarrow> tier e = ''gold'') \<and>
         (totalPoints e = 5000 \<longrightarrow> tier e = ''platinum'')"
proof -
  have "tierInvariant h u" using assms(1) by (simp add: tierInvariant_def)
  then have "tierInvariant (runUpdates ups h) u"
    using assms(2) by (rule tierInvariant_runUpdates)
  then have "tier e = tierFor (totalPoints e)"
    using assms(3) by (simp add: tierInvariant_def)
  then show ?thesis by (simp add: tierFor_def)
qed

lemma accumulate_99:
  "leaderboard (runUpdates (take 1 accumulate) newHandler) ''alice'' =
     Some \<lparr>entry_user = ''alice'', totalPoints = 99, totalPulses = 1, currentStreak = 1,
           longestStreak = 1, tier = ''none'', lastActive = 1\<rparr>"
  by (simp add: runUpdates_def accumulate_def newHandler_def updateLeaderboard_def emit_def Let_def)

lemma accumulate_100:
  "leaderboard (runUpdates accumulate newHandler) ''alice'' =
     Some \<lparr>entry_user = ''alice'', totalPoints = 100, totalPulses = 1, currentStreak = 1,
           longestStreak = 1, tier = ''bronze'', lastActive = 2\<rparr>"
  by (simp add: runUpdates_def accumulate_def newHandler_def updateLeaderboard_def emit_def Let_def)

theorem tier_thresholds_witness:
  "leaderboard newHandler ''alice'' = None \<and>
   list_all (gains ''alice'') accumulate \<and>
   leaderboard (runUpdates accumulate newHandler) ''alice'' =
     Some \<lparr>entry_user = ''alice'', totalPoints = 100, totalPulses = 1, currentStreak = 1,
           longestStreak = 1, tier = ''bronze'', lastActive = 2\<rparr> \<and>
   tier \<lparr>entry_user = ''alice'', totalPoints = 100, totalPulses = 1, currentStreak = 1,
         longestStreak = 1, tier = ''bronze'', lastActive = 2\<rparr> = ''bronze'' \<and>
   map_option tier (leaderboard (runUpdates (take 1 accumulate) newHandler) ''alice'') =
     Some ''none''"
proof -
  have fresh: "leaderboard newHandler ''alice'' = None" by (simp add: newHandler_def)
  have g: "list_all (gains ''alice'') accumulate" by (simp add: accumulate_def gains_def)
  have g1: "list_all (gains ''alice'') (take 1 accumulate)" by (simp add: accumulate_def gains_def)
  show ?thesis
    using tier_thresholds [OF fresh g accumulate_100] tier_thresholds [OF fresh g1 accumulate_99]
      fresh g accumulate_100 accumulate_99
    by simp
qed

section \<open>The notifier\<close>

text \<open>
  C9 as stated fails: with two subscribers on the channel \<open>pulse\<close>, the
  first of which throws, a pulse ends by the exception and the only call recorded is the
  call of the first subscriber; the second one is never called. The record and the fee
  are in the store all the same.
\<close>

theorem failing_subscriber_counterexample:
  "handlePulseEvent 0 samplePulse ''tx1'' 100 0
     (on ''pulse'' (neverThrows 2) (on ''pulse'' (alwaysThrows 1) newHandler)) =
   (Raised,
    \<lparr>activities = [pulseActivity samplePulse ''tx1'' 100 0],
     leaderboard = [''alice'' \<mapsto>
       \<lparr>entry_user = ''alice'', totalPoints = 10, totalPulses = 1, currentStreak = 1,
        longestStreak = 1, tier = ''none'', lastActive = 0\<rparr>],
     totalFees = 3000, totalTransactions = 0,
     listeners = listeners (on ''pulse'' (neverThrows 2) (on ''pulse'' (alwaysThrows 1) newHandler)),
     delivered = [(1, ''pulse'', EActivity (pulseActivity samplePulse ''tx1'' 100 0))]\<rparr>)"
  by (simp add: handlePulseEvent_def updateLeaderboard_def emit_def on_def Let_def newHandler_def
      samplePulse_def alwaysThrows_def neverThrows_def pulseActivity_def)

text \<open>
  C9, amended. A subscription is placed after the earlier ones of its channel; a publish
  calls the subscribers of the channel in that order up to and including the first that
  fails, and the ones after it are not called; the publish ends by an exception exactly
  when a subscriber fails (or the channel is \<open>error\<close> without subscribers); it changes
  nothing of the store, so what a handler wrote before publishing stays written.
\<close>

theorem emit_delivers_until_failure:
  "listeners (on channel s h) channel = listeners h channel @ [s] \<and>
   delivered (snd (emit channel x h)) =
     delivered h @ map (\<lambda>s. (sub_id s, channel, x)) (invoked (listeners h channel) x) \<and>
   (fst (emit channel x h) = Raised \<longleftrightarrow>
      list_ex (\<lambda>s. throws s x) (listeners h channel) \<or>
      (channel = ''error'' \<and> listeners h channel = [])) \<and>
   activities (snd (emit channel x h)) = activities h \<and>
   leaderboard (snd (emit channel x h)) = leaderboard h \<and>
   totalFees (snd (emit channel x h)) = totalFees h \<and>
   totalTransactions (snd (emit channel x h)) = totalTransactions h \<and>
   activities (snd (handlePulseEvent now e tx height ts h)) =
     activities h @ [pulseActivity e tx height ts] \<and>
   totalFees (snd (handlePulseEvent now e tx height ts h)) = totalFees h + pulse_fee e"
  by (simp add: on_def emit_delivered emit_store handlePulseEvent_store)
     (auto simp: emit_def callListeners_signal)

theorem emit_delivers_until_failure_witness:
  "delivered (snd (emit ''pulse'' (EActivity (pulseActivity samplePulse ''tx1'' 100 0))
      (on ''pulse'' (neverThrows 3) (on ''pulse'' (alwaysThrows 2)
        (on ''pulse'' (neverThrows 1) newHandler))))) =
     [(1, ''pulse'', EActivity (pulseActivity samplePulse ''tx1'' 100 0)),
      (2, ''pulse'', EActivity (pulseActivity samplePulse ''tx1'' 100 0))] \<and>
   fst (emit ''pulse'' (EActivity (pulseActivity samplePulse ''tx1'' 100 0))
      (on ''pulse'' (neverThrows 3) (on ''pulse'' (alwaysThrows 2)
        (on ''pulse'' (neverThrows 1) newHandler)))) = Raised"
  using emit_delivers_until_failure
    [of "''pulse''" "neverThrows 3"
        "on ''pulse'' (alwaysThrows 2) (on ''pulse'' (neverThrows 1) newHandler)"
        "EActivity (pulseActivity samplePulse ''tx1'' 100 0)"]
    emit_delivers_until_failure
    [of "''pulse''" "neverThrows 3"
        "on ''pulse'' (neverThrows 3) (on ''pulse'' (alwaysThrows 2)
          (on ''pulse'' (neverThrows 1) newHandler))"
        "EActivity (pulseActivity samplePulse ''tx1'' 100 0)"]
  by (simp add: on_def newHandler_def invoked_def alwaysThrows_def neverThrows_def)

section \<open>The payload shapes\<close>

lemma truthy_orElse: "truthy (orElse a b) \<longleftrightarrow> truthy a \<or> truthy b"
  by (simp add: orElse_def)

lemma optProp_truthy: "truthy (optProp x k) \<Longrightarrow> optProp x k = getProp x k"
  by (auto simp: optProp_def)

lemma optProp_isArray: "isArray (optProp x k) \<Longrightarrow> optProp x k = getProp x k"
  by (auto simp: optProp_def)

lemma optProp_nested: "isArray (optProp (optProp p a) b) \<Longrightarrow> optProp p a = getProp p a"
  by (auto simp: optProp_def)

text \<open>
  C5. The blocks that \<open>processPayload\<close> takes from a payload are those of the first of
  the documented rules whose test holds, and none when no test holds; in particular a
  payload with a top-level list \<open>apply\<close> yields that list, whatever \<open>event\<close> holds.
\<close>

theorem resolveApplyBlocks_first_match:
  "resolveApplyBlocks dateNow p = firstMatch (shapeRules dateNow) p \<and>
   (isArray (optProp p ''apply'') \<longrightarrow> resolveApplyBlocks dateNow p = elems (optProp p ''apply''))"
proof -
  have top: "isArray (optProp p ''apply'') \<Longrightarrow>
             resolveApplyBlocks dateNow p = elems (optProp p ''apply'')"
    using optProp_isArray [of p "''apply''"] by (simp add: resolveApplyBlocks_def)
  have ev: "truthy (optProp p ''event'') \<Longrightarrow> optProp p ''event'' = getProp p ''event''"
    by (rule optProp_truthy)
  have evn: "truthy (getProp p ''event'') \<Longrightarrow>
             optProp (getProp p ''event'') k = getProp (getProp p ''event'') k" for k
    by (auto simp: optProp_def)
  have "resolveApplyBlocks dateNow p = firstMatch (shapeRules dateNow) p"
  proof (cases "isArray (optProp p ''apply'')")
    case True
    then show ?thesis using top by (simp add: shapeRules_def)
  next
    case r1: False
    show ?thesis
    proof (cases "isArray (optProp (optProp p ''event'') ''apply'')")
      case True
      then show ?thesis using r1 optProp_nested [OF True] optProp_isArray [OF True]
        by (simp add: resolveApplyBlocks_def shapeRules_def)
    next
      case r2: False
      show ?thesis
      proof (cases "isArray (optProp (optProp p ''event'') ''blocks'')")
        case True
        then show ?thesis using r1 r2 optProp_nested [OF True] optProp_isArray [OF True]
          by (simp add: resolveApplyBlocks_def shapeRules_def)
      next
        case r3: False
        show ?thesis
        proof (cases "truthy (optProp p ''event'')")
          case True
          then show ?thesis using r1 r2 r3 ev [OF True] evn
            by (simp add: resolveApplyBlocks_def shapeRules_def eventIsObject_def truthy_orElse)
        next
          case False
          then show ?thesis using r1 r2 r3
            by (simp add: resolveApplyBlocks_def shapeRules_def eventIsObject_def)
        qed
      qed
    qed
  qed
  then show ?thesis using top by simp
qed

theorem resolveApplyBlocks_first_match_witness:
  "isArray (optProp bothLists ''apply'') \<and>
   isArray (optProp (optProp bothLists ''event'') ''apply'') \<and>
   resolveApplyBlocks 0 bothLists = [JStr ''top'']"
  using resolveApplyBlocks_first_match [of 0 bothLists]
  by (simp add: bothLists_def optProp_def shapeRules_def)

end
